theory Spec2Isabelle
  imports Main "HOL-Library.Sublist"
begin

section \<open>Values the tools handle\<close>

text \<open>
  The tools are TypeScript over values typed \<open>any\<close>: whatever \<open>JSON.parse\<close> made of a
  response body. Such a value is modelled as it is: a JSON value. A number is carried as the
  text that converting it to a string gives (the tools test its truth value, interpolate it
  and, in one place, compare it with zero); zero is the text \<open>0\<close>. An object is the list of
  its own properties, each name once. Strings are lists of 8-bit characters, so code units
  above U+00FF are outside the model.
\<close>

datatype json =
    JNull
  | JBool bool
  | JNum string
  | JStr string
  | JArr "json list"
  | JObj "(string \<times> json) list"

text \<open>The truth value of a value, as \<open>if (v)\<close>, \<open>v || d\<close> and \<open>filter(Boolean)\<close> read it.\<close>

fun js_truthy :: "json \<Rightarrow> bool" where
  "js_truthy JNull = False"
| "js_truthy (JBool b) = b"
| "js_truthy (JNum r) = (r \<noteq> ''0'')"
| "js_truthy (JStr s) = (s \<noteq> [])"
| "js_truthy (JArr xs) = True"
| "js_truthy (JObj kvs) = True"

text \<open>A length, as converting it to a string writes it: in decimal.\<close>

definition digit_char :: "nat \<Rightarrow> char" where
  "digit_char d = ''0123456789'' ! (d mod 10)"

function show_nat :: "nat \<Rightarrow> string" where
  "show_nat n = (if n < 10 then [digit_char n] else show_nat (n div 10) @ [digit_char (n mod 10)])"
  by pat_completeness auto
termination
  by (relation "measure id") auto

text \<open>
  A property name that is an index: \<open>0\<close>, or decimal digits that do not start with \<open>0\<close>.
\<close>

definition digit_value :: "char \<Rightarrow> nat" where
  "digit_value c = (of_char c :: nat) - 48"

definition is_digit :: "char \<Rightarrow> bool" where
  "is_digit c = (48 \<le> (of_char c :: nat) \<and> (of_char c :: nat) \<le> 57)"

definition parse_index :: "string \<Rightarrow> nat option" where
  "parse_index k =
     (if k \<noteq> [] \<and> list_all is_digit k \<and> (k = ''0'' \<or> hd k \<noteq> CHR ''0'')
      then Some (foldl (\<lambda>n c. 10 * n + digit_value c) 0 k)
      else None)"

text \<open>
  Reading a property \<open>v[k]\<close> of a value that is neither null nor undefined; \<open>None\<close> is
  \<open>undefined\<close>. An object has its own properties; an array and a string have their
  length and their elements, by index. What a value inherits (methods, \<open>constructor\<close>,
  \<open>__proto__\<close>) is a function or an object, never JSON data, and reads as \<open>None\<close> here. The
  tools read fixed field names of the store (\<open>fields\<close>, \<open>Personas\<close>, \<open>Goal\<close>, ...), which
  name nothing inherited, and one name taken from the environment, that of the bundle
  field, whose value is only tested for being a string: there a function or an object
  fares as \<open>undefined\<close> does.
\<close>

fun js_get :: "json \<Rightarrow> string \<Rightarrow> json option" where
  "js_get (JObj kvs) k = map_of kvs k"
| "js_get (JArr xs) k =
     (if k = ''length'' then Some (JNum (show_nat (length xs)))
      else (case parse_index k of
              None \<Rightarrow> None
            | Some n \<Rightarrow> if n < length xs then Some (xs ! n) else None))"
| "js_get (JStr s) k =
     (if k = ''length'' then Some (JNum (show_nat (length s)))
      else (case parse_index k of
              None \<Rightarrow> None
            | Some n \<Rightarrow> if n < length s then Some (JStr [s ! n]) else None))"
| "js_get v k = None"

text \<open>\<open>v || d\<close> where \<open>v\<close> may be undefined.\<close>

definition js_or :: "json option \<Rightarrow> json \<Rightarrow> json" where
  "js_or v d = (case v of None \<Rightarrow> d | Some x \<Rightarrow> if js_truthy x then x else d)"

text \<open>\<open>parts.join(sep)\<close> on an array of strings.\<close>

fun join_with :: "string \<Rightarrow> string list \<Rightarrow> string" where
  "join_with sep [] = []"
| "join_with sep [x] = x"
| "join_with sep (x # y # ys) = x @ sep @ join_with sep (y # ys)"

text \<open>
  Conversion to a string, as a template literal \<open>`${v}`\<close> and \<open>Array.prototype.join\<close>
  perform it. A plain object is converted through its \<open>toString\<close>: an own property of that
  name holds JSON data, which cannot be called, and the conversion throws a TypeError;
  without one the inherited method gives \<open>[object Object]\<close>. An array joins the texts of
  its elements with commas, a null element giving the empty text, and throws when an
  element does.
\<close>

fun js_throws :: "json \<Rightarrow> bool" where
  "js_throws (JObj kvs) = (map_of kvs ''toString'' \<noteq> None)"
| "js_throws (JArr xs) = list_ex js_throws xs"
| "js_throws v = False"

fun js_text :: "json \<Rightarrow> string" where
  "js_text JNull = ''null''"
| "js_text (JBool b) = (if b then ''true'' else ''false'')"
| "js_text (JNum r) = r"
| "js_text (JStr s) = s"
| "js_text (JArr xs) =
     join_with '','' (map (\<lambda>x. case x of JNull \<Rightarrow> [] | _ \<Rightarrow> js_text x) xs)"
| "js_text (JObj kvs) = ''[object Object]''"

definition js_String :: "json \<Rightarrow> string + string" where
  "js_String v =
     (if js_throws v then Inl ''Cannot convert object to primitive value'' else Inr (js_text v))"

text \<open>
  \<open>for (const id of ids)\<close>: an array yields its elements, a string its characters, and
  anything else is not iterable, which throws a TypeError (\<open>Inl\<close> its message).
\<close>

fun js_iterate :: "json \<Rightarrow> string + json list" where
  "js_iterate (JArr xs) = Inr xs"
| "js_iterate (JStr s) = Inr (map (\<lambda>c. JStr [c]) s)"
| "js_iterate v = Inl ''ids is not iterable''"

text \<open>White space as \<open>String.prototype.trim\<close> sees it, among the 8-bit characters.\<close>

definition js_space :: "char \<Rightarrow> bool" where
  "js_space c = ((of_char c :: nat) \<in> {9, 10, 11, 12, 13, 32, 160})"

definition js_trim :: "string \<Rightarrow> string" where
  "js_trim s = rev (dropWhile js_space (rev (dropWhile js_space s)))"

text \<open>
  \<open>v > 0\<close>. A number is compared by its sign; a boolean counts as 1 or 0 and null as 0; a
  string is read as a number, and so is the text an array converts to; a plain object reads
  as not a number, and the comparison is false. How a string reads as a number is left to
  the engine, which rounds to a double in ways of its own choosing for long literals: it is
  the parameter \<open>num\<close>, true of the strings that read as a number above zero.
\<close>

definition js_gt_zero :: "(string \<Rightarrow> bool) \<Rightarrow> json \<Rightarrow> string + bool" where
  "js_gt_zero num v =
     (case v of
        JNull \<Rightarrow> Inr False
      | JBool b \<Rightarrow> Inr b
      | JNum r \<Rightarrow> Inr (case r of [] \<Rightarrow> False | c # cs \<Rightarrow> c \<noteq> CHR ''-'' \<and> r \<noteq> ''0'')
      | JStr s \<Rightarrow> Inr (num s)
      | JArr xs \<Rightarrow>
          if js_throws v then Inl ''Cannot convert object to primitive value''
          else Inr (num (js_text v))
      | JObj kvs \<Rightarrow>
          if js_throws v then Inl ''Cannot convert object to primitive value'' else Inr False)"

subsection \<open>encodeURIComponent\<close>

definition hex_digit :: "nat \<Rightarrow> char" where
  "hex_digit d = ''0123456789ABCDEF'' ! (d mod 16)"

definition percent :: "nat \<Rightarrow> string" where
  "percent n = [CHR ''%'', hex_digit (n div 16), hex_digit (n mod 16)]"

definition uri_unreserved :: "char \<Rightarrow> bool" where
  "uri_unreserved c =
     (c \<in> set ''ABCDEFGHIJKLMNOPQRSTUVWXYZabcdefghijklmnopqrstuvwxyz0123456789-_.!~*()''
      \<or> c = CHR 0x27)"

text \<open>A character outside the unreserved set is escaped byte by byte in UTF-8.\<close>

definition encode_char :: "char \<Rightarrow> string" where
  "encode_char c =
     (let n = (of_char c :: nat) in
      if uri_unreserved c then [c]
      else if n < 128 then percent n
      else percent (192 + n div 64) @ percent (128 + n mod 64))"

definition encodeURIComponent :: "string \<Rightarrow> string" where
  "encodeURIComponent s = concat (map encode_char s)"

section \<open>The environment and the network\<close>

text \<open>\<open>process.env\<close>: a variable is absent or holds a string.\<close>

type_synonym env = "string \<Rightarrow> string option"

definition env_truthy :: "string option \<Rightarrow> bool" where
  "env_truthy v = (case v of None \<Rightarrow> False | Some s \<Rightarrow> s \<noteq> [])"

text \<open>\<open>a || b\<close> on optional strings, and \<open>process.env.K || 'default'\<close>.\<close>

definition or_else :: "string option \<Rightarrow> string option \<Rightarrow> string option" where
  "or_else a b = (if env_truthy a then a else b)"

definition env_or :: "env \<Rightarrow> string \<Rightarrow> string \<Rightarrow> string" where
  "env_or e k d = (case e k of None \<Rightarrow> d | Some s \<Rightarrow> if s = [] then d else s)"

text \<open>
  A request as \<open>fetch\<close> receives it. The body is the value handed to \<open>JSON.stringify\<close>.
\<close>

record request =
  req_method :: string
  req_url :: string
  req_headers :: "(string \<times> string) list"
  req_body :: "json option"

text \<open>
  A response, once it has arrived: its status, its body as \<open>text()\<close> returns it and as
  \<open>json()\<close> returns it (\<open>Inl\<close> the message of the SyntaxError when the body does not
  parse). \<open>fetch\<close> itself rejects when no response arrives.
\<close>

record response =
  status :: nat
  body_text :: string
  body_json :: "string + json"

definition ok :: "response \<Rightarrow> bool" where
  "ok r = (200 \<le> status r \<and> status r \<le> 299)"

datatype fetched = Rejected string | Responded response

text \<open>
  The world outside: what each request is answered with. It does not change while one
  tool invocation runs.
\<close>

type_synonym net = "request \<Rightarrow> fetched"

text \<open>The double quote character.\<close>

definition dq :: char where
  "dq = CHR 0x22"

section \<open>What a tool returns\<close>

text \<open>
  The four categories of linked records, in the order the tools treat them. The same shape
  carries the counts of the hydrated result and the raw relation values of the legacy one.
\<close>

record 'a per_category =
  personas :: 'a
  domains :: 'a
  entities :: 'a
  references :: 'a

text \<open>
  The object literals the tools return, one constructor for each shape:
  \<^item> \<open>Skipped reason\<close> is \<open>{ok: false, skipped: true, reason}\<close>;
  \<^item> \<open>StoreError status reason\<close> is \<open>{ok: false, status, reason}\<close>;
  \<^item> \<open>Failed message\<close> is \<open>{ok: false, error: message}\<close>;
  \<^item> \<open>Hydrated id xml counts\<close> is \<open>{ok: true, mode: 'hydrated', initiatorId, xml, linkedCounts}\<close>;
  \<^item> \<open>Prebuilt id xml\<close> is \<open>{ok: true, mode: 'prebuilt', initiatorId, xml, source}\<close>;
  \<^item> \<open>Assembled id xml linked\<close> is \<open>{ok: true, mode: 'assembled', initiatorId, xml, linkedResources}\<close>;
  \<^item> \<open>SqlRows rows columnNames rowCount\<close> is \<open>{ok: true, rows, columnNames, rowCount}\<close>;
  \<^item> \<open>Triggered data\<close> is \<open>{ok: true, data}\<close>;
  \<^item> \<open>SearchResults query results note recommendation\<close> is \<open>{query, results, note}\<close>, with
    \<open>recommendation\<close> when it is there;
  \<^item> \<open>Scraped url content note\<close> is \<open>{url, content, note}\<close>.
\<close>

datatype tool_result =
    Skipped string
  | StoreError nat string
  | Failed string
  | Hydrated string string "nat per_category"
  | Prebuilt string string
  | Assembled string string "json per_category"
  | SqlRows json json json
  | Triggered json
  | SearchResults string "json list" string "string option"
  | Scraped string string string

text \<open>The properties \<open>ok\<close>, \<open>skipped\<close> and \<open>reason\<close> of a result; \<open>None\<close> where it has none.\<close>

fun res_ok :: "tool_result \<Rightarrow> bool option" where
  "res_ok (Skipped reason) = Some False"
| "res_ok (StoreError st reason) = Some False"
| "res_ok (Failed msg) = Some False"
| "res_ok (Hydrated i xml counts) = Some True"
| "res_ok (Prebuilt i xml) = Some True"
| "res_ok (Assembled i xml linked) = Some True"
| "res_ok (SqlRows rows cols n) = Some True"
| "res_ok (Triggered d) = Some True"
| "res_ok (SearchResults q rs note recommendation) = None"
| "res_ok (Scraped url content note) = None"

fun res_skipped :: "tool_result \<Rightarrow> bool option" where
  "res_skipped (Skipped reason) = Some True"
| "res_skipped r = None"

fun res_reason :: "tool_result \<Rightarrow> string option" where
  "res_reason (Skipped reason) = Some reason"
| "res_reason (StoreError st reason) = Some reason"
| "res_reason r = None"

fun res_status :: "tool_result \<Rightarrow> nat option" where
  "res_status (StoreError st reason) = Some st"
| "res_status r = None"

fun res_mode :: "tool_result \<Rightarrow> string option" where
  "res_mode (Hydrated i xml counts) = Some ''hydrated''"
| "res_mode (Prebuilt i xml) = Some ''prebuilt''"
| "res_mode (Assembled i xml linked) = Some ''assembled''"
| "res_mode r = None"

fun res_xml :: "tool_result \<Rightarrow> string option" where
  "res_xml (Hydrated i xml counts) = Some xml"
| "res_xml (Prebuilt i xml) = Some xml"
| "res_xml (Assembled i xml linked) = Some xml"
| "res_xml r = None"

text \<open>
  One invocation of an \<open>execute\<close> function: what it returns (\<open>Inl\<close> the message of an error
  it throws, that is, its promise rejects) and the requests it made, in order.
\<close>

type_synonym 'a run = "(string + 'a) \<times> request list"

section \<open>The Airtable tools\<close>

definition airtableHeadersOrNull :: "env \<Rightarrow> (string \<times> string) list option" where
  "airtableHeadersOrNull e =
     (case or_else (or_else (e ''AIRTABLE_PAT'') (e ''AIRTABLE_API_KEY'')) (e ''AIRTABLE_TOKEN'') of
        None \<Rightarrow> None
      | Some token \<Rightarrow>
          if token = [] then None
          else Some [(''Authorization'', ''Bearer '' @ token),
                     (''Content-Type'', ''application/json'')])"

text \<open>\<open>context.baseId || process.env.AIRTABLE_BASE_ID || process.env.AIRTABLE_CONTENT_BASE_ID\<close>\<close>

definition resolve_baseId :: "env \<Rightarrow> string option \<Rightarrow> string option" where
  "resolve_baseId e arg =
     or_else (or_else arg (e ''AIRTABLE_BASE_ID'')) (e ''AIRTABLE_CONTENT_BASE_ID'')"

text \<open>
  Every tool of \<open>airtable-xml.ts\<close> opens with the same two checks, before its \<open>try\<close> block
  and before any request: the token, then the base id.
\<close>

definition airtable_guarded ::
  "env \<Rightarrow> string option \<Rightarrow> ((string \<times> string) list \<Rightarrow> string \<Rightarrow> tool_result run) \<Rightarrow> tool_result run"
where
  "airtable_guarded e baseIdArg body =
     (case airtableHeadersOrNull e of
        None \<Rightarrow> (Inr (Skipped ''Airtable not configured (no PAT/API key)''), [])
      | Some headers \<Rightarrow>
          (case resolve_baseId e baseIdArg of
             None \<Rightarrow> (Inr (Skipped ''No Airtable Base ID configured''), [])
           | Some b \<Rightarrow>
               if b = [] then (Inr (Skipped ''No Airtable Base ID configured''), [])
               else body headers b))"

text \<open>\<open>try { ... } catch (error) { return { ok: false, error: error.message } }\<close>\<close>

definition catch_all :: "tool_result run \<Rightarrow> tool_result run" where
  "catch_all r = (case r of (Inl msg, log) \<Rightarrow> (Inr (Failed msg), log) | (Inr v, log) \<Rightarrow> (Inr v, log))"

definition get_request :: "string \<Rightarrow> (string \<times> string) list \<Rightarrow> request" where
  "get_request url headers =
     \<lparr>req_method = ''GET'', req_url = url, req_headers = headers, req_body = None\<rparr>"

definition record_url :: "string \<Rightarrow> string \<Rightarrow> string \<Rightarrow> string" where
  "record_url b table i =
     ''https://api.airtable.com/v0/'' @ b @ ''/'' @ encodeURIComponent table @ ''/'' @ i"

text \<open>
  The message of the TypeError that reading property \<open>k\<close> of \<open>null\<close> or \<open>undefined\<close>
  throws. The texts are those of V8; nothing below depends on them.
\<close>

definition cannot_read :: "string \<Rightarrow> string \<Rightarrow> string" where
  "cannot_read what k =
     ''Cannot read properties of '' @ what @ '' (reading '' @ [CHR 0x27] @ k @ [CHR 0x27] @ '')''"

text \<open>
  \<open>record.fields\<close>, as evaluating \<open>record.fields[k]\<close> reaches it: a TypeError when the
  record is null, or when its \<open>fields\<close> is undefined or null.
\<close>

definition fields_for :: "json \<Rightarrow> string \<Rightarrow> string + json" where
  "fields_for rec k =
     (case rec of
        JNull \<Rightarrow> Inl (cannot_read ''null'' ''fields'')
      | _ \<Rightarrow>
          (case js_get rec ''fields'' of
             None \<Rightarrow> Inl (cannot_read ''undefined'' k)
           | Some JNull \<Rightarrow> Inl (cannot_read ''null'' k)
           | Some f \<Rightarrow> Inr f))"

text \<open>
  \<open>if (fields[k]) xmlParts.push(`    <tag>${fields[k]}</tag>`)\<close>; the template literal
  throws when the value cannot be converted.
\<close>

definition push_scalar :: "json \<Rightarrow> string \<Rightarrow> string \<Rightarrow> string list \<Rightarrow> string + string list" where
  "push_scalar f k tag xmlParts =
     (case js_get f k of
        None \<Rightarrow> Inr xmlParts
      | Some v \<Rightarrow>
          if js_truthy v
          then (case js_String v of
                  Inl msg \<Rightarrow> Inl msg
                | Inr t \<Rightarrow> Inr (xmlParts @ [''    <'' @ tag @ ''>'' @ t @ ''</'' @ tag @ ''>'']))
          else Inr xmlParts)"

text \<open>The opening of both documents: the bundle root and the initiator element.\<close>

definition initiator_parts :: "json \<Rightarrow> string \<Rightarrow> string + string list" where
  "initiator_parts f i =
     (let xmlParts = [''<bundle>'', ''  <initiator id='' @ [dq] @ i @ [dq] @ ''>''] in
      case push_scalar f ''Goal'' ''goal'' xmlParts of
        Inl msg \<Rightarrow> Inl msg
      | Inr xmlParts \<Rightarrow>
      case push_scalar f ''Content Type'' ''contentType'' xmlParts of
        Inl msg \<Rightarrow> Inl msg
      | Inr xmlParts \<Rightarrow>
      case push_scalar f ''Output Type'' ''outputType'' xmlParts of
        Inl msg \<Rightarrow> Inl msg
      | Inr xmlParts \<Rightarrow> Inr (xmlParts @ [''  </initiator>'']))"

definition newline :: string where
  "newline = [CHR 0x0A]"

subsection \<open>The hydrated context\<close>

text \<open>The input of the hydrated and of the legacy tool.\<close>

record initiator_input =
  initiatorId :: string
  baseId :: "string option"

text \<open>The request for the record \<open>i\<close> of a table, once \<open>i\<close> is a text.\<close>

definition child_request :: "(string \<times> string) list \<Rightarrow> string \<Rightarrow> string \<Rightarrow> json \<Rightarrow> request" where
  "child_request headers b table i = get_request (record_url b table (js_text i)) headers"

text \<open>
  The loop of \<open>fetchByIds\<close>: for each id, in order, the URL is built from the id (which
  throws when the id cannot be converted) and requested; the record of a response that is
  \<open>ok\<close> is pushed onto \<open>results\<close>, any other response is passed over. A \<open>fetch\<close> that
  rejects, or a body that does not parse, throws out of the loop.
\<close>

fun fetch_loop ::
  "net \<Rightarrow> (string \<times> string) list \<Rightarrow> string \<Rightarrow> string \<Rightarrow> json list \<Rightarrow> json list \<Rightarrow> request list
     \<Rightarrow> (json list) run"
where
  "fetch_loop nw headers b table [] results log = (Inr results, log)"
| "fetch_loop nw headers b table (i # ids) results log =
     (case js_String i of
        Inl msg \<Rightarrow> (Inl msg, log)
      | Inr t \<Rightarrow>
         (let req = get_request (record_url b table t) headers in
          case nw req of
            Rejected msg \<Rightarrow> (Inl msg, log @ [req])
          | Responded r \<Rightarrow>
              if ok r then
                (case body_json r of
                   Inl msg \<Rightarrow> (Inl msg, log @ [req])
                 | Inr rec \<Rightarrow> fetch_loop nw headers b table ids (results @ [rec]) (log @ [req]))
              else fetch_loop nw headers b table ids results (log @ [req])))"

text \<open>\<open>v?.[k]\<close>: undefined when \<open>v\<close> is undefined or null.\<close>

definition opt_get :: "json option \<Rightarrow> string \<Rightarrow> json option" where
  "opt_get v k = (case v of None \<Rightarrow> None | Some JNull \<Rightarrow> None | Some x \<Rightarrow> js_get x k)"

text \<open>\<open>r?.fields?.[xmlField] || ''\<close>\<close>

definition xml_of :: "string \<Rightarrow> json \<Rightarrow> json" where
  "xml_of xmlField r = js_or (opt_get (opt_get (Some r) ''fields'') xmlField) (JStr [])"

definition fetchByIds ::
  "net \<Rightarrow> (string \<times> string) list \<Rightarrow> string \<Rightarrow> string \<Rightarrow> json \<Rightarrow> string \<Rightarrow> request list
     \<Rightarrow> (json list) run"
where
  "fetchByIds nw headers b table ids xmlField log =
     (case js_iterate ids of
        Inl msg \<Rightarrow> (Inl msg, log)
      | Inr idl \<Rightarrow>
          (case fetch_loop nw headers b table idl [] log of
             (Inl msg, log') \<Rightarrow> (Inl msg, log')
           | (Inr results, log') \<Rightarrow>
               (Inr (filter js_truthy (map (xml_of xmlField) results)), log')))"

text \<open>\<open>xs.forEach(xml => { xmlParts.push(`    ${xml}`) })\<close>\<close>

fun push_texts :: "json list \<Rightarrow> string list \<Rightarrow> string + string list" where
  "push_texts [] xmlParts = Inr xmlParts"
| "push_texts (xml # xs) xmlParts =
     (case js_String xml of
        Inl msg \<Rightarrow> Inl msg
      | Inr t \<Rightarrow> push_texts xs (xmlParts @ [''    '' @ t]))"

text \<open>
  \<open>if (xs.length > 0) { push(`  <tag>`); xs.forEach(...); push(`  </tag>`) }\<close>
\<close>

definition push_category :: "string \<Rightarrow> json list \<Rightarrow> string list \<Rightarrow> string + string list" where
  "push_category tag xs xmlParts =
     (if length xs > 0
      then (case push_texts xs (xmlParts @ [''  <'' @ tag @ ''>'']) of
              Inl msg \<Rightarrow> Inl msg
            | Inr xmlParts \<Rightarrow> Inr (xmlParts @ [''  </'' @ tag @ ''>'']))
      else Inr xmlParts)"

text \<open>Step 5 of the tool: the parts of the document, then \<open>xmlParts.filter(Boolean).join('\n')\<close>.\<close>

definition hydrated_xml ::
  "json \<Rightarrow> string \<Rightarrow> json list \<Rightarrow> json list \<Rightarrow> json list \<Rightarrow> json list \<Rightarrow> string + string"
where
  "hydrated_xml f i personaXml domainXml entityXml referenceXml =
     (case initiator_parts f i of
        Inl msg \<Rightarrow> Inl msg
      | Inr xmlParts \<Rightarrow>
      case push_category ''personas'' personaXml xmlParts of
        Inl msg \<Rightarrow> Inl msg
      | Inr xmlParts \<Rightarrow>
      case push_category ''domains'' domainXml xmlParts of
        Inl msg \<Rightarrow> Inl msg
      | Inr xmlParts \<Rightarrow>
      case push_category ''entities'' entityXml xmlParts of
        Inl msg \<Rightarrow> Inl msg
      | Inr xmlParts \<Rightarrow>
      case push_category ''references'' referenceXml xmlParts of
        Inl msg \<Rightarrow> Inl msg
      | Inr xmlParts \<Rightarrow>
          Inr (join_with newline (filter (\<lambda>part. part \<noteq> []) (xmlParts @ [''</bundle>'']))))"

text \<open>Steps 2 to 5, once the initiator record \<open>init\<close> has been parsed.\<close>

definition hydrate_linked ::
  "env \<Rightarrow> net \<Rightarrow> (string \<times> string) list \<Rightarrow> string \<Rightarrow> string \<Rightarrow> json \<Rightarrow> request list
     \<Rightarrow> tool_result run"
where
  "hydrate_linked e nw headers b i init log =
     (case fields_for init ''Personas'' of
        Inl msg \<Rightarrow> (Inl msg, log)
      | Inr f \<Rightarrow>
         (let personaIds = js_or (js_get f ''Personas'') (JArr []);
              domainIds = js_or (js_get f ''Content Domains'') (JArr []);
              entityIds = js_or (js_get f ''Entity'') (JArr []);
              referenceIds = js_or (js_get f ''References'') (JArr [])
          in
          case fetchByIds nw headers b (env_or e ''AIRTABLE_TABLE_PERSONAS'' ''Personas'')
                 personaIds ''XML Bundle'' log of
            (Inl msg, log1) \<Rightarrow> (Inl msg, log1)
          | (Inr personaXml, log1) \<Rightarrow>
          case fetchByIds nw headers b (env_or e ''AIRTABLE_TABLE_DOMAINS'' ''Content Domains'')
                 domainIds ''XML Bundle'' log1 of
            (Inl msg, log2) \<Rightarrow> (Inl msg, log2)
          | (Inr domainXml, log2) \<Rightarrow>
          case fetchByIds nw headers b (env_or e ''AIRTABLE_TABLE_ENTITIES'' ''Entity'')
                 entityIds ''XML'' log2 of
            (Inl msg, log3) \<Rightarrow> (Inl msg, log3)
          | (Inr entityXml, log3) \<Rightarrow>
          case fetchByIds nw headers b (env_or e ''AIRTABLE_TABLE_REFERENCES'' ''References'')
                 referenceIds ''XML'' log3 of
            (Inl msg, log4) \<Rightarrow> (Inl msg, log4)
          | (Inr referenceXml, log4) \<Rightarrow>
              (case hydrated_xml f i personaXml domainXml entityXml referenceXml of
                 Inl msg \<Rightarrow> (Inl msg, log4)
               | Inr xml \<Rightarrow>
                   (Inr (Hydrated i xml
                           \<lparr>personas = length personaXml, domains = length domainXml,
                            entities = length entityXml, references = length referenceXml\<rparr>),
                    log4))))"

text \<open>The request for the initiator record itself.\<close>

definition initiator_request :: "env \<Rightarrow> (string \<times> string) list \<Rightarrow> string \<Rightarrow> string \<Rightarrow> request" where
  "initiator_request e headers b i =
     get_request
       (record_url b (env_or e ''AIRTABLE_TABLE_CONTENT_INITIATORS'' ''Content Initiators'') i)
       headers"

text \<open>The body of the \<open>try\<close> block.\<close>

definition hydrate_body ::
  "env \<Rightarrow> net \<Rightarrow> string \<Rightarrow> (string \<times> string) list \<Rightarrow> string \<Rightarrow> tool_result run"
where
  "hydrate_body e nw i headers b =
     (let initReq = initiator_request e headers b i in
      case nw initReq of
        Rejected msg \<Rightarrow> (Inl msg, [initReq])
      | Responded initRes \<Rightarrow>
          if \<not> ok initRes
          then (Inr (StoreError (status initRes) (body_text initRes)), [initReq])
          else (case body_json initRes of
                  Inl msg \<Rightarrow> (Inl msg, [initReq])
                | Inr init \<Rightarrow> hydrate_linked e nw headers b i init [initReq]))"

definition airtableGetHydratedContentContext :: "env \<Rightarrow> net \<Rightarrow> initiator_input \<Rightarrow> tool_result run" where
  "airtableGetHydratedContentContext e nw context =
     airtable_guarded e (baseId context)
       (\<lambda>headers b. catch_all (hydrate_body e nw (initiatorId context) headers b))"

subsection \<open>The legacy bundle\<close>

text \<open>
  \<open>if (x.length > 0) xmlParts.push(`  <tag linkedIds="${x.join(',')}" />`)\<close>, where \<open>x\<close> is
  a relation value or the empty array. An array has a length and joins its elements, which
  throws when one cannot be converted. A string has a length but no \<open>join\<close>, so the call
  throws. A number or a boolean has no \<open>length\<close>, and the comparison is false. A plain
  object has the \<open>length\<close> it owns, if any; when that is above zero the call of \<open>join\<close>
  throws, as no JSON value can be called.
\<close>

definition linked_ids_part :: "(string \<Rightarrow> bool) \<Rightarrow> string \<Rightarrow> json \<Rightarrow> string + string list" where
  "linked_ids_part num tag x =
     (case x of
        JArr xs \<Rightarrow>
          if length xs > 0
          then (case js_String (JArr xs) of
                  Inl msg \<Rightarrow> Inl msg
                | Inr t \<Rightarrow> Inr [''  <'' @ tag @ '' linkedIds='' @ [dq] @ t @ [dq] @ '' />''])
          else Inr []
      | JStr s \<Rightarrow> if length s > 0 then Inl (tag @ ''.join is not a function'') else Inr []
      | JObj kvs \<Rightarrow>
          (case map_of kvs ''length'' of
             None \<Rightarrow> Inr []
           | Some v \<Rightarrow>
               (case js_gt_zero num v of
                  Inl msg \<Rightarrow> Inl msg
                | Inr gt \<Rightarrow> if gt then Inl (tag @ ''.join is not a function'') else Inr []))
      | _ \<Rightarrow> Inr [])"

text \<open>The assembly from the relation fields: ids only, as attributes.\<close>

definition assembled_xml ::
  "(string \<Rightarrow> bool) \<Rightarrow> json \<Rightarrow> string \<Rightarrow> json per_category \<Rightarrow> string + string"
where
  "assembled_xml num f i linked =
     (case initiator_parts f i of
        Inl msg \<Rightarrow> Inl msg
      | Inr xmlParts \<Rightarrow>
      case linked_ids_part num ''personas'' (personas linked) of
        Inl msg \<Rightarrow> Inl msg
      | Inr p \<Rightarrow>
      case linked_ids_part num ''domains'' (domains linked) of
        Inl msg \<Rightarrow> Inl msg
      | Inr d \<Rightarrow>
      case linked_ids_part num ''entities'' (entities linked) of
        Inl msg \<Rightarrow> Inl msg
      | Inr en \<Rightarrow>
      case linked_ids_part num ''references'' (references linked) of
        Inl msg \<Rightarrow> Inl msg
      | Inr r \<Rightarrow> Inr (join_with newline (xmlParts @ p @ d @ en @ r @ [''</bundle>''])))"

text \<open>
  \<open>prebuiltXml && typeof prebuiltXml === 'string' && prebuiltXml.trim()\<close>: the value to
  return as it is, when the test holds.
\<close>

definition prebuilt_bundle :: "json option \<Rightarrow> string option" where
  "prebuilt_bundle v =
     (case v of
        Some (JStr s) \<Rightarrow> if s \<noteq> [] \<and> js_trim s \<noteq> [] then Some s else None
      | _ \<Rightarrow> None)"

text \<open>What the tool does with the parsed record.\<close>

definition bundle_of_record :: "(string \<Rightarrow> bool) \<Rightarrow> env \<Rightarrow> string \<Rightarrow> json \<Rightarrow> string + tool_result" where
  "bundle_of_record num e i rec =
     (let bundleField = env_or e ''AIRTABLE_FIELD_XML_BUNDLE'' ''BUNDLE of the XML BUNDLES'' in
      case fields_for rec bundleField of
        Inl msg \<Rightarrow> Inl msg
      | Inr f \<Rightarrow>
         (case prebuilt_bundle (js_get f bundleField) of
            Some prebuiltXml \<Rightarrow> Inr (Prebuilt i prebuiltXml)
          | None \<Rightarrow>
             (let linked = \<lparr>personas = js_or (js_get f ''Personas'') (JArr []),
                            domains = js_or (js_get f ''Content Domains'') (JArr []),
                            entities = js_or (js_get f ''Entity'') (JArr []),
                            references = js_or (js_get f ''References'') (JArr [])\<rparr>
              in case assembled_xml num f i linked of
                   Inl msg \<Rightarrow> Inl msg
                 | Inr xml \<Rightarrow> Inr (Assembled i xml linked))))"

definition bundle_body ::
  "(string \<Rightarrow> bool) \<Rightarrow> env \<Rightarrow> net \<Rightarrow> string \<Rightarrow> (string \<times> string) list \<Rightarrow> string
     \<Rightarrow> tool_result run"
where
  "bundle_body num e nw i headers b =
     (let req = initiator_request e headers b i in
      case nw req of
        Rejected msg \<Rightarrow> (Inl msg, [req])
      | Responded res \<Rightarrow>
          if \<not> ok res
          then (Inr (StoreError (status res) (body_text res)), [req])
          else (case body_json res of
                  Inl msg \<Rightarrow> (Inl msg, [req])
                | Inr rec \<Rightarrow> (bundle_of_record num e i rec, [req])))"

definition airtableGetContentBundle ::
  "(string \<Rightarrow> bool) \<Rightarrow> env \<Rightarrow> net \<Rightarrow> initiator_input \<Rightarrow> tool_result run"
where
  "airtableGetContentBundle num e nw context =
     airtable_guarded e (baseId context)
       (\<lambda>headers b. catch_all (bundle_body num e nw (initiatorId context) headers b))"

section \<open>The SQL bridge\<close>

text \<open>\<open>data.data?.length || 0\<close>\<close>

definition row_count :: "json option \<Rightarrow> json" where
  "row_count v = js_or (opt_get v ''length'') (JNum ''0'')"

text \<open>The tool has no \<open>try\<close> block: what throws after the check is thrown to the caller.\<close>

definition mindsdbQuery :: "env \<Rightarrow> net \<Rightarrow> string \<Rightarrow> tool_result run" where
  "mindsdbQuery e nw sql =
     (case e ''MINDSDB_URL'' of
        None \<Rightarrow> (Inr (Skipped ''MINDSDB_URL not set''), [])
      | Some url \<Rightarrow>
          if url = [] then (Inr (Skipped ''MINDSDB_URL not set''), [])
          else
           (let headers =
                  (''Content-Type'', ''application/json'') #
                  (case e ''MINDSDB_KEY'' of
                     None \<Rightarrow> []
                   | Some k \<Rightarrow> if k = [] then [] else [(''Authorization'', ''Bearer '' @ k)]);
                req = \<lparr>req_method = ''POST'', req_url = url @ ''/api/sql/query'',
                       req_headers = headers, req_body = Some (JObj [(''query'', JStr sql)])\<rparr>
            in case nw req of
                 Rejected msg \<Rightarrow> (Inl msg, [req])
               | Responded response \<Rightarrow>
                   if \<not> ok response
                   then (Inr (StoreError (status response) (body_text response)), [req])
                   else (case body_json response of
                           Inl msg \<Rightarrow> (Inl msg, [req])
                         | Inr JNull \<Rightarrow> (Inl (cannot_read ''null'' ''data''), [req])
                         | Inr data \<Rightarrow>
                             (Inr (SqlRows (js_or (js_get data ''data'') (JArr []))
                                     (js_or (js_get data ''column_names'') (JArr []))
                                     (row_count (js_get data ''data''))),
                              [req]))))"

section \<open>Web search and web scrape\<close>

text \<open>
  Both are placeholders that make no request. Without its key the search returns an empty
  result list with a note (after a warning on the console, which is not modelled), and the
  scrape throws. Neither reads its other inputs (\<open>maxResults\<close>, \<open>selector\<close>).
\<close>

definition webSearch :: "env \<Rightarrow> net \<Rightarrow> string \<Rightarrow> tool_result run" where
  "webSearch e nw query =
     (if \<not> env_truthy (e ''BROWSERBASE_API_KEY'')
      then (Inr (SearchResults query []
                   ''Web search requires BROWSERBASE_API_KEY to be configured'' None), [])
      else (Inr (SearchResults query []
                   ''Web search tool is a placeholder. Integrate with Tavily, SerpAPI, or similar service.''
                   (Some ''Add TAVILY_API_KEY to .env and implement Tavily integration for production use.'')),
            []))"

definition webScrape :: "env \<Rightarrow> net \<Rightarrow> string \<Rightarrow> tool_result run" where
  "webScrape e nw url =
     (if \<not> env_truthy (e ''BROWSERBASE_API_KEY'')
      then (Inl ''BROWSERBASE_API_KEY required for web scraping'', [])
      else (Inr (Scraped url [] ''Web scraping requires Browserbase integration to be implemented''),
            []))"

section \<open>The webhook trigger\<close>

definition strip_trailing_slashes :: "string \<Rightarrow> string" where
  "strip_trailing_slashes s = rev (dropWhile (\<lambda>c. c = CHR ''/'') (rev s))"

definition strip_leading_slashes :: "string \<Rightarrow> string" where
  "strip_leading_slashes s = dropWhile (\<lambda>c. c = CHR ''/'') s"

definition joinWebhookUrl :: "string \<Rightarrow> string \<Rightarrow> string" where
  "joinWebhookUrl base scenario =
     (let b = strip_trailing_slashes base;
          hasWebhook = suffix ''/webhook'' b;
          root = (if hasWebhook then b else b @ ''/webhook'');
          path = strip_leading_slashes scenario
      in root @ ''/'' @ path)"


text \<open>
  The trigger itself. It has no \<open>try\<close> block around \<open>fetch\<close>; a body that does not parse
  gives \<open>data: null\<close>.
\<close>

definition n8nTrigger :: "env \<Rightarrow> net \<Rightarrow> string \<Rightarrow> json option \<Rightarrow> tool_result run" where
  "n8nTrigger e nw scenario payload =
     (case e ''N8N_WEBHOOK_BASE'' of
        None \<Rightarrow> (Inr (Skipped ''N8N_WEBHOOK_BASE not set''), [])
      | Some base \<Rightarrow>
          if base = [] then (Inr (Skipped ''N8N_WEBHOOK_BASE not set''), [])
          else
           (let req = \<lparr>req_method = ''POST'', req_url = joinWebhookUrl base scenario,
                       req_headers = [(''Content-Type'', ''application/json'')],
                       req_body = payload\<rparr>
            in case nw req of
                 Rejected msg \<Rightarrow> (Inl msg, [req])
               | Responded response \<Rightarrow>
                   if \<not> ok response
                   then (Inr (StoreError (status response) (body_text response)), [req])
                   else (case body_json response of
                           Inl msg \<Rightarrow> (Inr (Triggered JNull), [req])
                         | Inr data \<Rightarrow> (Inr (Triggered data), [req]))))"

text \<open>
  The older copy of the trigger, which joins base and scenario with one slash and is
  otherwise the same.
\<close>

definition n8nTrigger_plain :: "env \<Rightarrow> net \<Rightarrow> string \<Rightarrow> json option \<Rightarrow> tool_result run" where
  "n8nTrigger_plain e nw scenario payload =
     (case e ''N8N_WEBHOOK_BASE'' of
        None \<Rightarrow> (Inr (Skipped ''N8N_WEBHOOK_BASE not set''), [])
      | Some base \<Rightarrow>
          if base = [] then (Inr (Skipped ''N8N_WEBHOOK_BASE not set''), [])
          else
           (let req = \<lparr>req_method = ''POST'', req_url = base @ ''/'' @ scenario,
                       req_headers = [(''Content-Type'', ''application/json'')],
                       req_body = payload\<rparr>
            in case nw req of
                 Rejected msg \<Rightarrow> (Inl msg, [req])
               | Responded response \<Rightarrow>
                   if \<not> ok response
                   then (Inr (StoreError (status response) (body_text response)), [req])
                   else (case body_json response of
                           Inl msg \<Rightarrow> (Inr (Triggered JNull), [req])
                         | Inr data \<Rightarrow> (Inr (Triggered data), [req]))))"

section \<open>The other tools, up to their checks\<close>

text \<open>
  The remaining tools that need configuration are modelled from their first statement to
  the check of that configuration, which comes before anything else they do. What a tool
  does once the check has passed (its request and the reading of the answer) is the
  parameter \<open>rest\<close>, given what the check computed; what is proved of these tools holds
  whatever \<open>rest\<close> is.
\<close>

text \<open>
  \<open>airtableCreateContentRequest\<close>, \<open>airtableGetPersonaContext\<close>, \<open>airtableGetDomainKnowledge\<close>
  and \<open>airtableUpdateContentOutput\<close> of \<open>airtable-xml.ts\<close> open with the two checks of
  \<open>airtable_guarded\<close>, as the hydrated context and the legacy bundle do.
\<close>

definition airtableCreateContentRequest ::
  "env \<Rightarrow> string option \<Rightarrow> ((string \<times> string) list \<Rightarrow> string \<Rightarrow> tool_result run) \<Rightarrow> tool_result run"
where
  "airtableCreateContentRequest e baseIdArg rest = airtable_guarded e baseIdArg rest"

definition airtableGetPersonaContext ::
  "env \<Rightarrow> string option \<Rightarrow> ((string \<times> string) list \<Rightarrow> string \<Rightarrow> tool_result run) \<Rightarrow> tool_result run"
where
  "airtableGetPersonaContext e baseIdArg rest = airtable_guarded e baseIdArg rest"

definition airtableGetDomainKnowledge ::
  "env \<Rightarrow> string option \<Rightarrow> ((string \<times> string) list \<Rightarrow> string \<Rightarrow> tool_result run) \<Rightarrow> tool_result run"
where
  "airtableGetDomainKnowledge e baseIdArg rest = airtable_guarded e baseIdArg rest"

definition airtableUpdateContentOutput ::
  "env \<Rightarrow> string option \<Rightarrow> ((string \<times> string) list \<Rightarrow> string \<Rightarrow> tool_result run) \<Rightarrow> tool_result run"
where
  "airtableUpdateContentOutput e baseIdArg rest = airtable_guarded e baseIdArg rest"

text \<open>
  \<open>airtableQuery\<close>, \<open>airtableCreate\<close> and \<open>airtableUpdate\<close> check the token only: their
  base id is an input that the schema requires, not configuration.
\<close>

definition token_guarded :: "env \<Rightarrow> ((string \<times> string) list \<Rightarrow> tool_result run) \<Rightarrow> tool_result run" where
  "token_guarded e rest =
     (case airtableHeadersOrNull e of
        None \<Rightarrow> (Inr (Skipped ''Airtable not configured (no PAT/API key)''), [])
      | Some headers \<Rightarrow> rest headers)"

definition airtableQuery :: "env \<Rightarrow> ((string \<times> string) list \<Rightarrow> tool_result run) \<Rightarrow> tool_result run" where
  "airtableQuery e rest = token_guarded e rest"

definition airtableCreate :: "env \<Rightarrow> ((string \<times> string) list \<Rightarrow> tool_result run) \<Rightarrow> tool_result run" where
  "airtableCreate e rest = token_guarded e rest"

definition airtableUpdate :: "env \<Rightarrow> ((string \<times> string) list \<Rightarrow> tool_result run) \<Rightarrow> tool_result run" where
  "airtableUpdate e rest = token_guarded e rest"

text \<open>
  The base id of \<open>airtableFetchPersona\<close>: the input, else the first of six variables that
  is set.
\<close>

definition persona_base :: "env \<Rightarrow> string option \<Rightarrow> string option" where
  "persona_base e arg =
     or_else (or_else (or_else (or_else (or_else (or_else arg
       (e ''AIRTABLE_BASE_ID''))
       (e ''AIRTABLE_CRM_BASE_ID''))
       (e ''AIRTABLE_CONTENT_HUB_BASE_ID''))
       (e ''AIRTABLE_AUTOMATION_BASE_ID''))
       (e ''AIRTABLE_SOCIAL_MEDIA_BASE_ID''))
       (e ''AIRTABLE_NEWSLETTER_BASE_ID'')"

text \<open>
  \<open>airtableFetchPersona\<close> of \<open>airtable.ts\<close>: the key is
  \<open>process.env.AIRTABLE_API_KEY || process.env.AIRTABLE_PAT\<close>, and one check covers the key
  and the base id.
\<close>

definition airtableFetchPersona ::
  "env \<Rightarrow> string option \<Rightarrow> (string \<Rightarrow> string \<Rightarrow> tool_result run) \<Rightarrow> tool_result run"
where
  "airtableFetchPersona e baseIdArg rest =
     (let key = or_else (e ''AIRTABLE_API_KEY'') (e ''AIRTABLE_PAT'');
          base = persona_base e baseIdArg
      in if \<not> env_truthy key \<or> \<not> env_truthy base
         then (Inr (Skipped ''Airtable not configured (missing key or baseId)''), [])
         else (case key of
                 None \<Rightarrow> (Inr (Skipped ''Airtable not configured (missing key or baseId)''), [])
               | Some k \<Rightarrow>
                   (case base of
                      None \<Rightarrow> (Inr (Skipped ''Airtable not configured (missing key or baseId)''), [])
                    | Some bs \<Rightarrow> rest k bs)))"

text \<open>Its later copy, kept as a legacy tool beside \<open>airtableQuery\<close>, takes the headers instead.\<close>

definition airtableFetchPersona_legacy ::
  "env \<Rightarrow> string option \<Rightarrow> ((string \<times> string) list \<Rightarrow> string \<Rightarrow> tool_result run) \<Rightarrow> tool_result run"
where
  "airtableFetchPersona_legacy e baseIdArg rest =
     (let headers = airtableHeadersOrNull e;
          base = persona_base e baseIdArg
      in case headers of
           None \<Rightarrow> (Inr (Skipped ''Airtable not configured (missing key or baseId)''), [])
         | Some h \<Rightarrow>
             (case base of
                None \<Rightarrow> (Inr (Skipped ''Airtable not configured (missing key or baseId)''), [])
              | Some bs \<Rightarrow>
                  if bs = [] then (Inr (Skipped ''Airtable not configured (missing key or baseId)''), [])
                  else rest h bs))"

text \<open>
  The web search backed by Tavily: without \<open>TAVILY_API_KEY\<close> it returns an empty result list
  with a note, as the placeholder does without its key.
\<close>

definition webSearch_tavily :: "env \<Rightarrow> string \<Rightarrow> (string \<Rightarrow> tool_result run) \<Rightarrow> tool_result run" where
  "webSearch_tavily e query rest =
     (case e ''TAVILY_API_KEY'' of
        None \<Rightarrow>
          (Inr (SearchResults query []
                  ''Set TAVILY_API_KEY in .env to enable web search (Tavily REST API).'' None), [])
      | Some tavilyKey \<Rightarrow>
          if tavilyKey = []
          then (Inr (SearchResults query []
                  ''Set TAVILY_API_KEY in .env to enable web search (Tavily REST API).'' None), [])
          else rest tavilyKey)"

section \<open>The documents, as the specification words them\<close>


text \<open>
  What a request for a child record resolves to: its record, when the response is \<open>ok\<close> and
  the body parses. A child fetch fails when the store answers it with another status; it
  throws when no response arrives or when the body of an \<open>ok\<close> response does not parse.
\<close>

definition child_record :: "net \<Rightarrow> request \<Rightarrow> json option" where
  "child_record nw req =
     (case nw req of
        Rejected msg \<Rightarrow> None
      | Responded r \<Rightarrow>
          if ok r then (case body_json r of Inl msg \<Rightarrow> None | Inr rec \<Rightarrow> Some rec) else None)"

definition child_throws :: "net \<Rightarrow> request \<Rightarrow> bool" where
  "child_throws nw req =
     (case nw req of
        Rejected msg \<Rightarrow> True
      | Responded r \<Rightarrow> ok r \<and> (case body_json r of Inl msg \<Rightarrow> True | Inr rec \<Rightarrow> False))"

text \<open>
  A linked id resolves to a knowledge text that is not empty when its record is there and
  the text field of the record is truthy.
\<close>

definition resolves :: "net \<Rightarrow> (json \<Rightarrow> request) \<Rightarrow> string \<Rightarrow> json \<Rightarrow> bool" where
  "resolves nw mk xmlField i =
     (case child_record nw (mk i) of None \<Rightarrow> False | Some rec \<Rightarrow> js_truthy (xml_of xmlField rec))"

text \<open>The texts collected for a category: those of the ids that resolve, in the order of the ids.\<close>

definition collected_texts :: "net \<Rightarrow> (json \<Rightarrow> request) \<Rightarrow> string \<Rightarrow> json list \<Rightarrow> json list" where
  "collected_texts nw mk xmlField ids =
     map (\<lambda>i. case child_record nw (mk i) of None \<Rightarrow> JNull | Some rec \<Rightarrow> xml_of xmlField rec)
       (filter (resolves nw mk xmlField) ids)"

text \<open>The ids a relation field of the initiator links, in the order the store gave them.\<close>

definition linked_ids :: "json \<Rightarrow> string \<Rightarrow> json list" where
  "linked_ids f k = (case js_iterate (js_or (js_get f k) (JArr [])) of Inl msg \<Rightarrow> [] | Inr ids \<Rightarrow> ids)"

text \<open>The four relation fields can be iterated: each is absent, a list or a string.\<close>

definition relations_iterable :: "json \<Rightarrow> bool" where
  "relations_iterable f =
     list_all (\<lambda>k. case js_iterate (js_or (js_get f k) (JArr [])) of Inl msg \<Rightarrow> False | Inr ids \<Rightarrow> True)
       [''Personas'', ''Content Domains'', ''Entity'', ''References'']"

text \<open>The requests for the linked records of an initiator with fields \<open>f\<close>, category by category.\<close>

definition persona_request :: "env \<Rightarrow> (string \<times> string) list \<Rightarrow> string \<Rightarrow> json \<Rightarrow> request" where
  "persona_request e headers b = child_request headers b (env_or e ''AIRTABLE_TABLE_PERSONAS'' ''Personas'')"

definition domain_request :: "env \<Rightarrow> (string \<times> string) list \<Rightarrow> string \<Rightarrow> json \<Rightarrow> request" where
  "domain_request e headers b =
     child_request headers b (env_or e ''AIRTABLE_TABLE_DOMAINS'' ''Content Domains'')"

definition entity_request :: "env \<Rightarrow> (string \<times> string) list \<Rightarrow> string \<Rightarrow> json \<Rightarrow> request" where
  "entity_request e headers b = child_request headers b (env_or e ''AIRTABLE_TABLE_ENTITIES'' ''Entity'')"

definition reference_request :: "env \<Rightarrow> (string \<times> string) list \<Rightarrow> string \<Rightarrow> json \<Rightarrow> request" where
  "reference_request e headers b =
     child_request headers b (env_or e ''AIRTABLE_TABLE_REFERENCES'' ''References'')"

definition child_requests :: "env \<Rightarrow> (string \<times> string) list \<Rightarrow> string \<Rightarrow> json \<Rightarrow> request list" where
  "child_requests e headers b f =
     map (persona_request e headers b) (linked_ids f ''Personas'') @
     map (domain_request e headers b) (linked_ids f ''Content Domains'') @
     map (entity_request e headers b) (linked_ids f ''Entity'') @
     map (reference_request e headers b) (linked_ids f ''References'')"

text \<open>The texts collected for each category of an initiator with fields \<open>f\<close>.\<close>

definition category_texts ::
  "env \<Rightarrow> net \<Rightarrow> (string \<times> string) list \<Rightarrow> string \<Rightarrow> json \<Rightarrow> (json list) per_category"
where
  "category_texts e nw headers b f =
     \<lparr>personas = collected_texts nw (persona_request e headers b) ''XML Bundle''
                   (linked_ids f ''Personas''),
      domains = collected_texts nw (domain_request e headers b) ''XML Bundle''
                  (linked_ids f ''Content Domains''),
      entities = collected_texts nw (entity_request e headers b) ''XML'' (linked_ids f ''Entity''),
      references = collected_texts nw (reference_request e headers b) ''XML''
                     (linked_ids f ''References'')\<rparr>"

text \<open>
  The container of a category: nothing at all when no text was collected, else the opening
  tag, each text on a line of its own, and the closing tag.
\<close>

definition category_container :: "string \<Rightarrow> json list \<Rightarrow> string list" where
  "category_container tag texts =
     (if texts = [] then []
      else [''  <'' @ tag @ ''>''] @ map (\<lambda>xml. ''    '' @ js_text xml) texts @
           [''  </'' @ tag @ ''>''])"

text \<open>
  The lines of the initiator element: the id, then each scalar attribute that is there, in
  the order goal, content type, output type; one that is absent or falsy gives no line.
\<close>

definition scalar_line :: "json \<Rightarrow> string \<Rightarrow> string \<Rightarrow> string list" where
  "scalar_line f k tag =
     (case js_get f k of
        None \<Rightarrow> []
      | Some v \<Rightarrow>
          if js_truthy v then [''    <'' @ tag @ ''>'' @ js_text v @ ''</'' @ tag @ ''>''] else [])"

definition initiator_lines :: "json \<Rightarrow> string \<Rightarrow> string list" where
  "initiator_lines f i =
     [''<bundle>'', ''  <initiator id='' @ [dq] @ i @ [dq] @ ''>''] @
     scalar_line f ''Goal'' ''goal'' @
     scalar_line f ''Content Type'' ''contentType'' @
     scalar_line f ''Output Type'' ''outputType'' @
     [''  </initiator>'']"

text \<open>
  A record the tool can write out: every scalar attribute it would write, every linked id
  and every collected text can be converted to a string.
\<close>

definition scalars_convertible :: "json \<Rightarrow> bool" where
  "scalars_convertible f =
     list_all (\<lambda>k. case js_get f k of None \<Rightarrow> True | Some v \<Rightarrow> \<not> js_truthy v \<or> \<not> js_throws v)
       [''Goal'', ''Content Type'', ''Output Type'']"

definition ids_convertible :: "json \<Rightarrow> bool" where
  "ids_convertible f =
     list_all (\<lambda>i. \<not> js_throws i)
       (linked_ids f ''Personas'' @ linked_ids f ''Content Domains'' @
        linked_ids f ''Entity'' @ linked_ids f ''References'')"

definition texts_convertible :: "(json list) per_category \<Rightarrow> bool" where
  "texts_convertible t =
     list_all (\<lambda>xml. \<not> js_throws xml) (personas t @ domains t @ entities t @ references t)"

text \<open>The composite document: the four containers in their fixed order after the initiator.\<close>

definition composite_document ::
  "json \<Rightarrow> string \<Rightarrow> json list \<Rightarrow> json list \<Rightarrow> json list \<Rightarrow> json list \<Rightarrow> string"
where
  "composite_document f i ps ds es rs =
     join_with newline
       (initiator_lines f i @
        category_container ''personas'' ps @ category_container ''domains'' ds @
        category_container ''entities'' es @ category_container ''references'' rs @
        [''</bundle>''])"

text \<open>The mode and the document of a run; \<open>None\<close> when it has none.\<close>

definition run_mode :: "tool_result run \<Rightarrow> string option" where
  "run_mode x = (case fst x of Inl msg \<Rightarrow> None | Inr r \<Rightarrow> res_mode r)"

definition run_xml :: "tool_result run \<Rightarrow> string option" where
  "run_xml x = (case fst x of Inl msg \<Rightarrow> None | Inr r \<Rightarrow> res_xml r)"

text \<open>A string with at least one character that is not white space.\<close>

definition non_blank :: "string \<Rightarrow> bool" where
  "non_blank s = list_ex (\<lambda>ch. \<not> js_space ch) s"

section \<open>The skipped outcome\<close>

text \<open>
  A run that ends in \<open>{ok: false, skipped: true, reason}\<close> with a reason that is not empty,
  having made no request.
\<close>

definition skipped_without_calls :: "tool_result run \<Rightarrow> bool" where
  "skipped_without_calls x =
     (case x of
        (Inl msg, log) \<Rightarrow> False
      | (Inr r, log) \<Rightarrow>
          res_ok r = Some False \<and> res_skipped r = Some True \<and>
          (case res_reason r of None \<Rightarrow> False | Some reason \<Rightarrow> reason \<noteq> []) \<and> log = [])"

section \<open>Concrete worlds\<close>

text \<open>
  The inputs the closed theorems below are evaluated at. A world is given by a table from
  URLs to what \<open>fetch\<close> does there; a URL the table does not list is answered 404.
\<close>

definition env_none :: env where
  "env_none = (\<lambda>k. None)"

definition env_airtable :: env where
  "env_airtable =
     (\<lambda>k. if k = ''AIRTABLE_PAT'' then Some ''patX''
          else if k = ''AIRTABLE_BASE_ID'' then Some ''appB''
          else None)"

definition headers_airtable :: "(string \<times> string) list" where
  "headers_airtable = [(''Authorization'', ''Bearer patX''), (''Content-Type'', ''application/json'')]"

definition not_found :: response where
  "not_found = \<lparr>status = 404, body_text = ''NOT_FOUND'', body_json = Inl ''Unexpected token N''\<rparr>"

definition net_of :: "(string \<times> fetched) list \<Rightarrow> net" where
  "net_of tbl = (\<lambda>req. case map_of tbl (req_url req) of None \<Rightarrow> Responded not_found | Some a \<Rightarrow> a)"

definition answer :: "json \<Rightarrow> fetched" where
  "answer v = Responded \<lparr>status = 200, body_text = [], body_json = Inr v\<rparr>"

definition record_json :: "string \<Rightarrow> (string \<times> json) list \<Rightarrow> json" where
  "record_json i f = JObj [(''id'', JStr i), (''fields'', JObj f)]"

definition ctx_rec1 :: initiator_input where
  "ctx_rec1 = \<lparr>initiatorId = ''rec1'', baseId = None\<rparr>"

definition url_rec1 :: string where
  "url_rec1 = ''https://api.airtable.com/v0/appB/Content%20Initiators/rec1''"

definition url_p1 :: string where
  "url_p1 = ''https://api.airtable.com/v0/appB/Personas/p1''"

definition url_p2 :: string where
  "url_p2 = ''https://api.airtable.com/v0/appB/Personas/p2''"

definition url_e1 :: string where
  "url_e1 = ''https://api.airtable.com/v0/appB/Entity/e1''"

definition fields_rec1 :: "(string \<times> json) list" where
  "fields_rec1 =
     [(''Goal'', JStr ''Launch post''),
      (''Personas'', JArr [JStr ''p1'', JStr ''p2'']),
      (''Entity'', JArr [JStr ''e1''])]"

text \<open>
  The scenario of the specification: \<open>rec1\<close> links the personas \<open>p1\<close> and \<open>p2\<close> and the
  entity \<open>e1\<close>; \<open>p1\<close> and \<open>e1\<close> hold a text, \<open>p2\<close> holds the empty text.
\<close>

definition net_scenario :: net where
  "net_scenario = net_of
     [(url_rec1, answer (record_json ''rec1'' fields_rec1)),
      (url_p1, answer (record_json ''p1'' [(''XML Bundle'', JStr ''<persona>A</persona>'')])),
      (url_p2, answer (record_json ''p2'' [(''XML Bundle'', JStr [])])),
      (url_e1, answer (record_json ''e1'' [(''XML'', JStr ''<entity>B</entity>'')]))]"

text \<open>The same store, but the request for \<open>p2\<close> gets no response at all.\<close>

definition net_p2_unreachable :: net where
  "net_p2_unreachable = net_of
     [(url_rec1, answer (record_json ''rec1'' fields_rec1)),
      (url_p1, answer (record_json ''p1'' [(''XML Bundle'', JStr ''<persona>A</persona>'')])),
      (url_p2, Rejected ''fetch failed''),
      (url_e1, answer (record_json ''e1'' [(''XML'', JStr ''<entity>B</entity>'')]))]"

text \<open>The same store, answering 404 for \<open>p2\<close>, which has been deleted.\<close>

definition net_p2_deleted :: net where
  "net_p2_deleted = net_of
     [(url_rec1, answer (record_json ''rec1'' fields_rec1)),
      (url_p1, answer (record_json ''p1'' [(''XML Bundle'', JStr ''<persona>A</persona>'')])),
      (url_e1, answer (record_json ''e1'' [(''XML'', JStr ''<entity>B</entity>'')]))]"

text \<open>The store of the scenario with one more record in it, which \<open>rec1\<close> does not link.\<close>

definition net_scenario_more :: net where
  "net_scenario_more = net_of
     [(''https://api.airtable.com/v0/appB/Personas/p9'',
       answer (record_json ''p9'' [(''XML Bundle'', JStr ''<persona>Z</persona>'')])),
      (url_rec1, answer (record_json ''rec1'' fields_rec1)),
      (url_p1, answer (record_json ''p1'' [(''XML Bundle'', JStr ''<persona>A</persona>'')])),
      (url_p2, answer (record_json ''p2'' [(''XML Bundle'', JStr [])])),
      (url_e1, answer (record_json ''e1'' [(''XML'', JStr ''<entity>B</entity>'')]))]"

text \<open>The document the scenario expects.\<close>

definition xml_scenario :: string where
  "xml_scenario = join_with newline
     [''<bundle>'',
      ''  <initiator id='' @ [dq] @ ''rec1'' @ [dq] @ ''>'',
      ''    <goal>Launch post</goal>'',
      ''  </initiator>'',
      ''  <personas>'',
      ''    <persona>A</persona>'',
      ''  </personas>'',
      ''  <entities>'',
      ''    <entity>B</entity>'',
      ''  </entities>'',
      ''</bundle>'']"

text \<open>A store that answers 503 for the initiator.\<close>

definition unavailable :: response where
  "unavailable = \<lparr>status = 503, body_text = ''Service Unavailable'', body_json = Inl ''Unexpected token S''\<rparr>"

definition net_unavailable :: net where
  "net_unavailable = net_of [(url_rec1, Responded unavailable)]"

text \<open>A store that holds only the initiator \<open>rec1\<close>, with the given fields.\<close>

definition net_initiator :: "(string \<times> json) list \<Rightarrow> net" where
  "net_initiator f = net_of [(url_rec1, answer (record_json ''rec1'' f))]"

text \<open>The legacy document of \<open>rec1\<close> when it links the personas \<open>p1\<close> and \<open>p2\<close> and nothing else.\<close>

definition xml_ids_only :: string where
  "xml_ids_only = join_with newline
     [''<bundle>'',
      ''  <initiator id='' @ [dq] @ ''rec1'' @ [dq] @ ''>'',
      ''  </initiator>'',
      ''  <personas linkedIds='' @ [dq] @ ''p1,p2'' @ [dq] @ '' />'',
      ''</bundle>'']"

text \<open>
  In none of these worlds is a string compared with a number; where a reading of numeric
  strings has to be named, it is this one.
\<close>

definition reads_none :: "string \<Rightarrow> bool" where
  "reads_none s = False"



text \<open>A goal that is an object with a property named \<open>toString\<close>.\<close>

definition fields_goal_object :: "(string \<times> json) list" where
  "fields_goal_object = [(''Goal'', JObj [(''toString'', JStr ''x'')])]"

section \<open>Properties of the webhook URL\<close>










section \<open>Guards, failures and thrown errors\<close>

lemma headers_env_airtable: "airtableHeadersOrNull env_airtable = Some headers_airtable"
  by (simp add: airtableHeadersOrNull_def env_airtable_def or_else_def env_truthy_def headers_airtable_def)

lemma base_env_airtable: "resolve_baseId env_airtable (baseId ctx_rec1) = Some ''appB''"
  by (simp add: resolve_baseId_def env_airtable_def or_else_def env_truthy_def ctx_rec1_def)

lemma encode_content_initiators: "encodeURIComponent ''Content Initiators'' = ''Content%20Initiators''"
  by (simp add: encodeURIComponent_def encode_char_def uri_unreserved_def percent_def hex_digit_def)

lemma initiator_request_rec1:
  "initiator_request env_airtable headers_airtable ''appB'' (initiatorId ctx_rec1) =
     get_request url_rec1 headers_airtable"
  by (simp add: initiator_request_def env_or_def env_airtable_def record_url_def
      encode_content_initiators url_rec1_def ctx_rec1_def)

lemma catch_all_returns: "\<exists>r log. catch_all x = (Inr r, log)"
  by (cases x) (auto simp: catch_all_def split: sum.splits)

lemma hydrate_linked_result:
  "hydrate_linked e nw headers b i init log = (Inr r, log') \<Longrightarrow> \<exists>xml counts. r = Hydrated i xml counts"
  by (auto simp: hydrate_linked_def Let_def split: sum.splits prod.splits)

lemma hydrate_body_result:
  "hydrate_body e nw i headers b = (Inr r, log) \<Longrightarrow>
     (\<exists>st reason. r = StoreError st reason) \<or> (\<exists>xml counts. r = Hydrated i xml counts)"
  by (auto simp: hydrate_body_def Let_def split: fetched.splits if_splits sum.splits
      dest: hydrate_linked_result)

text \<open>
  Claim C8. Whatever the environment, the input and the world, the \<open>execute\<close> function of
  the hydrated-context tool returns a result and throws nothing: its run never ends in
  \<open>Inl\<close>. The result is one of the four shapes: skipped (configuration absent), a store
  error with its status, a failure carrying the message of whatever was thrown inside the
  body, or the hydrated document.
\<close>

theorem hydrate_never_throws:
  "\<exists>r log. airtableGetHydratedContentContext e nw c = (Inr r, log) \<and>
     ((\<exists>reason. r = Skipped reason) \<or> (\<exists>st reason. r = StoreError st reason) \<or>
      (\<exists>msg. r = Failed msg) \<or> (\<exists>xml counts. r = Hydrated (initiatorId c) xml counts))"
proof (cases "airtableHeadersOrNull e")
  case None
  then show ?thesis
    by (simp add: airtableGetHydratedContentContext_def airtable_guarded_def)
next
  case (Some headers)
  show ?thesis
  proof (cases "resolve_baseId e (baseId c)")
    case None
    with Some show ?thesis
      by (simp add: airtableGetHydratedContentContext_def airtable_guarded_def)
  next
    case b: (Some b)
    show ?thesis
    proof (cases "b = []")
      case True
      with Some b show ?thesis
        by (simp add: airtableGetHydratedContentContext_def airtable_guarded_def)
    next
      case False
      obtain out log where run: "hydrate_body e nw (initiatorId c) headers b = (out, log)"
        by (cases "hydrate_body e nw (initiatorId c) headers b")
      show ?thesis
      proof (cases out)
        case (Inl msg)
        with Some b False run show ?thesis
          by (simp add: airtableGetHydratedContentContext_def airtable_guarded_def catch_all_def)
      next
        case (Inr r)
        with run hydrate_body_result [of e nw "initiatorId c" headers b r log]
        have "(\<exists>st reason. r = StoreError st reason) \<or> (\<exists>xml counts. r = Hydrated (initiatorId c) xml counts)"
          by simp
        with Some b False run Inr show ?thesis
          by (auto simp: airtableGetHydratedContentContext_def airtable_guarded_def catch_all_def)
      qed
    qed
  qed
qed

text \<open>
  Claim C4. When the store answers the request for the initiator record with a status that
  is not 2xx, the tool returns a result that is not a success and carries that status (with
  the body as reason), and the request for the initiator is the only request it made: no
  linked record is fetched.
\<close>

theorem root_failure_stops_hydration:
  assumes "airtableHeadersOrNull e = Some headers"
    and "resolve_baseId e (baseId c) = Some b" and "b \<noteq> []"
    and "nw (initiator_request e headers b (initiatorId c)) = Responded r"
    and "\<not> ok r"
  shows "airtableGetHydratedContentContext e nw c =
           (Inr (StoreError (status r) (body_text r)),
            [initiator_request e headers b (initiatorId c)])"
  using assms
  by (simp add: airtableGetHydratedContentContext_def airtable_guarded_def catch_all_def
      hydrate_body_def Let_def)

lemma net_unavailable_rec1:
  "net_unavailable (get_request url_rec1 headers_airtable) = Responded unavailable"
  by (simp add: net_unavailable_def net_of_def get_request_def)

theorem root_failure_stops_hydration_witness:
  "airtableGetHydratedContentContext env_airtable net_unavailable ctx_rec1 =
     (Inr (StoreError 503 ''Service Unavailable''), [get_request url_rec1 headers_airtable])"
proof -
  have "\<not> ok unavailable" by (simp add: ok_def unavailable_def)
  from root_failure_stops_hydration [OF headers_env_airtable base_env_airtable _ _ this, of net_unavailable]
  show ?thesis
    by (simp add: initiator_request_rec1 net_unavailable_rec1 unavailable_def)
qed


lemma run_p2_unreachable:
  "airtableGetHydratedContentContext env_airtable net_p2_unreachable ctx_rec1 =
     (Inr (Failed ''fetch failed''),
      [get_request url_rec1 headers_airtable, get_request url_p1 headers_airtable,
       get_request url_p2 headers_airtable])"
  by code_simp

lemma run_goal_object:
  "airtableGetHydratedContentContext env_airtable (net_initiator fields_goal_object) ctx_rec1 =
     (Inr (Failed ''Cannot convert object to primitive value''),
      [get_request url_rec1 headers_airtable])"
  by code_simp

theorem hydrate_never_throws_witness:
  "fst (airtableGetHydratedContentContext env_airtable net_p2_unreachable ctx_rec1) =
     Inr (Failed ''fetch failed'')
   \<and> fst (airtableGetHydratedContentContext env_airtable (net_initiator fields_goal_object)
        ctx_rec1) = Inr (Failed ''Cannot convert object to primitive value'')"
  using hydrate_never_throws [of env_airtable net_p2_unreachable ctx_rec1]
    hydrate_never_throws [of env_airtable "net_initiator fields_goal_object" ctx_rec1]
  by (simp add: run_p2_unreachable run_goal_object)

lemma airtable_guarded_no_token:
  assumes "\<not> env_truthy (e ''AIRTABLE_PAT'')" "\<not> env_truthy (e ''AIRTABLE_API_KEY'')"
    "\<not> env_truthy (e ''AIRTABLE_TOKEN'')"
  shows "airtable_guarded e arg body = (Inr (Skipped ''Airtable not configured (no PAT/API key)''), [])"
  using assms
  by (auto simp: airtable_guarded_def airtableHeadersOrNull_def or_else_def env_truthy_def
      split: option.splits)

lemma airtable_guarded_no_base:
  assumes "\<not> env_truthy arg" "\<not> env_truthy (e ''AIRTABLE_BASE_ID'')"
    "\<not> env_truthy (e ''AIRTABLE_CONTENT_BASE_ID'')"
  shows "skipped_without_calls (airtable_guarded e arg body)"
  using assms
  by (auto simp: airtable_guarded_def resolve_baseId_def or_else_def env_truthy_def
      skipped_without_calls_def split: option.splits)

lemma token_guarded_no_token:
  assumes "\<not> env_truthy (e ''AIRTABLE_PAT'')" "\<not> env_truthy (e ''AIRTABLE_API_KEY'')"
    "\<not> env_truthy (e ''AIRTABLE_TOKEN'')"
  shows "skipped_without_calls (token_guarded e rest)"
  using assms
  by (auto simp: token_guarded_def airtableHeadersOrNull_def or_else_def env_truthy_def
      skipped_without_calls_def split: option.splits)

lemma persona_base_absent:
  "\<not> env_truthy (persona_base e arg) \<longleftrightarrow>
     \<not> env_truthy arg \<and> \<not> env_truthy (e ''AIRTABLE_BASE_ID'') \<and>
     \<not> env_truthy (e ''AIRTABLE_CRM_BASE_ID'') \<and> \<not> env_truthy (e ''AIRTABLE_CONTENT_HUB_BASE_ID'') \<and>
     \<not> env_truthy (e ''AIRTABLE_AUTOMATION_BASE_ID'') \<and>
     \<not> env_truthy (e ''AIRTABLE_SOCIAL_MEDIA_BASE_ID'') \<and>
     \<not> env_truthy (e ''AIRTABLE_NEWSLETTER_BASE_ID'')"
  by (simp add: persona_base_def or_else_def)

lemma headers_absent:
  assumes "\<not> env_truthy (e ''AIRTABLE_PAT'')" "\<not> env_truthy (e ''AIRTABLE_API_KEY'')"
    "\<not> env_truthy (e ''AIRTABLE_TOKEN'')"
  shows "airtableHeadersOrNull e = None"
  using assms
  by (auto simp: airtableHeadersOrNull_def or_else_def env_truthy_def split: option.splits)

lemma fetchPersona_legacy_skipped:
  assumes "airtableHeadersOrNull e = None \<or> \<not> env_truthy (persona_base e arg)"
  shows "skipped_without_calls (airtableFetchPersona_legacy e arg rest)"
  using assms
  by (auto simp: airtableFetchPersona_legacy_def Let_def env_truthy_def skipped_without_calls_def
      split: option.splits)

lemma fetchPersona_skipped:
  assumes "\<not> env_truthy (or_else (e ''AIRTABLE_API_KEY'') (e ''AIRTABLE_PAT'')) \<or>
    \<not> env_truthy (persona_base e arg)"
  shows "skipped_without_calls (airtableFetchPersona e arg rest)"
  using assms
  by (auto simp: airtableFetchPersona_def Let_def skipped_without_calls_def)

text \<open>
  Claim C2, as amended. Invoked without the configuration it requires, each of these tools
  returns \<open>ok: false, skipped: true\<close> with a reason that is not empty, and makes no
  request:
  \<^item> the six tools of \<open>airtable-xml.ts\<close>, without a token (none of \<open>AIRTABLE_PAT\<close>,
    \<open>AIRTABLE_API_KEY\<close>, \<open>AIRTABLE_TOKEN\<close>) or without a base id (neither the input nor
    \<open>AIRTABLE_BASE_ID\<close> nor \<open>AIRTABLE_CONTENT_BASE_ID\<close>);
  \<^item> \<open>airtableQuery\<close>, \<open>airtableCreate\<close> and \<open>airtableUpdate\<close>, without a token: their
    base id is a required input, which they do not check;
  \<^item> \<open>airtableFetchPersona\<close>, without its key (\<open>AIRTABLE_API_KEY\<close>, \<open>AIRTABLE_PAT\<close>; its
    legacy copy: the token above) or without a base id (neither the input nor any of its
    six variables);
  \<^item> the SQL bridge without \<open>MINDSDB_URL\<close>, and both copies of the webhook trigger without
    \<open>N8N_WEBHOOK_BASE\<close>.

  The web tools do otherwise, and make no request either: without its key the web search
  (the placeholder, and the one backed by Tavily) returns an empty result list with a
  note, and the web scrape of \<open>web.ts\<close> throws.
\<close>

theorem guards_without_configuration:
  "(\<not> env_truthy (e ''AIRTABLE_PAT'') \<and> \<not> env_truthy (e ''AIRTABLE_API_KEY'') \<and>
    \<not> env_truthy (e ''AIRTABLE_TOKEN'') \<or>
    \<not> env_truthy (baseId c) \<and> \<not> env_truthy (e ''AIRTABLE_BASE_ID'') \<and>
    \<not> env_truthy (e ''AIRTABLE_CONTENT_BASE_ID'')
    \<longrightarrow> skipped_without_calls (airtableGetHydratedContentContext e nw c) \<and>
        skipped_without_calls (airtableGetContentBundle num e nw c) \<and>
        skipped_without_calls (airtableCreateContentRequest e (baseId c) body) \<and>
        skipped_without_calls (airtableGetPersonaContext e (baseId c) body) \<and>
        skipped_without_calls (airtableGetDomainKnowledge e (baseId c) body) \<and>
        skipped_without_calls (airtableUpdateContentOutput e (baseId c) body))
   \<and> (\<not> env_truthy (e ''AIRTABLE_PAT'') \<and> \<not> env_truthy (e ''AIRTABLE_API_KEY'') \<and>
       \<not> env_truthy (e ''AIRTABLE_TOKEN'')
       \<longrightarrow> skipped_without_calls (airtableQuery e rest) \<and>
           skipped_without_calls (airtableCreate e rest) \<and>
           skipped_without_calls (airtableUpdate e rest))
   \<and> (\<not> env_truthy (e ''AIRTABLE_PAT'') \<and> \<not> env_truthy (e ''AIRTABLE_API_KEY'') \<and>
       \<not> env_truthy (e ''AIRTABLE_TOKEN'') \<or>
       \<not> env_truthy (baseId c) \<and> \<not> env_truthy (e ''AIRTABLE_BASE_ID'') \<and>
       \<not> env_truthy (e ''AIRTABLE_CRM_BASE_ID'') \<and>
       \<not> env_truthy (e ''AIRTABLE_CONTENT_HUB_BASE_ID'') \<and>
       \<not> env_truthy (e ''AIRTABLE_AUTOMATION_BASE_ID'') \<and>
       \<not> env_truthy (e ''AIRTABLE_SOCIAL_MEDIA_BASE_ID'') \<and>
       \<not> env_truthy (e ''AIRTABLE_NEWSLETTER_BASE_ID'')
       \<longrightarrow> skipped_without_calls (airtableFetchPersona_legacy e (baseId c) body))
   \<and> (\<not> env_truthy (e ''AIRTABLE_API_KEY'') \<and> \<not> env_truthy (e ''AIRTABLE_PAT'') \<or>
       \<not> env_truthy (baseId c) \<and> \<not> env_truthy (e ''AIRTABLE_BASE_ID'') \<and>
       \<not> env_truthy (e ''AIRTABLE_CRM_BASE_ID'') \<and>
       \<not> env_truthy (e ''AIRTABLE_CONTENT_HUB_BASE_ID'') \<and>
       \<not> env_truthy (e ''AIRTABLE_AUTOMATION_BASE_ID'') \<and>
       \<not> env_truthy (e ''AIRTABLE_SOCIAL_MEDIA_BASE_ID'') \<and>
       \<not> env_truthy (e ''AIRTABLE_NEWSLETTER_BASE_ID'')
       \<longrightarrow> skipped_without_calls (airtableFetchPersona e (baseId c) rest_key))
   \<and> (\<not> env_truthy (e ''MINDSDB_URL'') \<longrightarrow> skipped_without_calls (mindsdbQuery e nw sql))
   \<and> (\<not> env_truthy (e ''N8N_WEBHOOK_BASE'') \<longrightarrow>
        skipped_without_calls (n8nTrigger e nw scenario payload) \<and>
        skipped_without_calls (n8nTrigger_plain e nw scenario payload))
   \<and> (\<not> env_truthy (e ''BROWSERBASE_API_KEY'') \<longrightarrow>
        webSearch e nw query =
          (Inr (SearchResults query [] ''Web search requires BROWSERBASE_API_KEY to be configured''
                  None), []) \<and>
        webScrape e nw url = (Inl ''BROWSERBASE_API_KEY required for web scraping'', []))
   \<and> (\<not> env_truthy (e ''TAVILY_API_KEY'') \<longrightarrow>
        webSearch_tavily e query rest_search =
          (Inr (SearchResults query []
                  ''Set TAVILY_API_KEY in .env to enable web search (Tavily REST API).'' None), []))"
proof (intro conjI impI)
  assume a: "\<not> env_truthy (e ''AIRTABLE_PAT'') \<and> \<not> env_truthy (e ''AIRTABLE_API_KEY'') \<and>
    \<not> env_truthy (e ''AIRTABLE_TOKEN'') \<or>
    \<not> env_truthy (baseId c) \<and> \<not> env_truthy (e ''AIRTABLE_BASE_ID'') \<and>
    \<not> env_truthy (e ''AIRTABLE_CONTENT_BASE_ID'')"
  have g: "skipped_without_calls (airtable_guarded e (baseId c) bd)" for bd
    using a airtable_guarded_no_token [of e "baseId c" bd] airtable_guarded_no_base [of "baseId c" e bd]
    by (auto simp: skipped_without_calls_def)
  show "skipped_without_calls (airtableGetHydratedContentContext e nw c)"
    unfolding airtableGetHydratedContentContext_def by (rule g)
  show "skipped_without_calls (airtableGetContentBundle num e nw c)"
    unfolding airtableGetContentBundle_def by (rule g)
  show "skipped_without_calls (airtableCreateContentRequest e (baseId c) body)"
    unfolding airtableCreateContentRequest_def by (rule g)
  show "skipped_without_calls (airtableGetPersonaContext e (baseId c) body)"
    unfolding airtableGetPersonaContext_def by (rule g)
  show "skipped_without_calls (airtableGetDomainKnowledge e (baseId c) body)"
    unfolding airtableGetDomainKnowledge_def by (rule g)
  show "skipped_without_calls (airtableUpdateContentOutput e (baseId c) body)"
    unfolding airtableUpdateContentOutput_def by (rule g)
next
  assume t: "\<not> env_truthy (e ''AIRTABLE_PAT'') \<and> \<not> env_truthy (e ''AIRTABLE_API_KEY'') \<and>
       \<not> env_truthy (e ''AIRTABLE_TOKEN'')"
  then have g: "skipped_without_calls (token_guarded e rest)"
    by (intro token_guarded_no_token) simp_all
  show "skipped_without_calls (airtableQuery e rest)"
    unfolding airtableQuery_def by (rule g)
  show "skipped_without_calls (airtableCreate e rest)"
    unfolding airtableCreate_def by (rule g)
  show "skipped_without_calls (airtableUpdate e rest)"
    unfolding airtableUpdate_def by (rule g)
next
  assume "\<not> env_truthy (e ''AIRTABLE_PAT'') \<and> \<not> env_truthy (e ''AIRTABLE_API_KEY'') \<and>
       \<not> env_truthy (e ''AIRTABLE_TOKEN'') \<or>
       \<not> env_truthy (baseId c) \<and> \<not> env_truthy (e ''AIRTABLE_BASE_ID'') \<and>
       \<not> env_truthy (e ''AIRTABLE_CRM_BASE_ID'') \<and>
       \<not> env_truthy (e ''AIRTABLE_CONTENT_HUB_BASE_ID'') \<and>
       \<not> env_truthy (e ''AIRTABLE_AUTOMATION_BASE_ID'') \<and>
       \<not> env_truthy (e ''AIRTABLE_SOCIAL_MEDIA_BASE_ID'') \<and>
       \<not> env_truthy (e ''AIRTABLE_NEWSLETTER_BASE_ID'')"
  then have "airtableHeadersOrNull e = None \<or> \<not> env_truthy (persona_base e (baseId c))"
    using headers_absent [of e] persona_base_absent [of e "baseId c"] by blast
  then show "skipped_without_calls (airtableFetchPersona_legacy e (baseId c) body)"
    by (rule fetchPersona_legacy_skipped)
next
  assume "\<not> env_truthy (e ''AIRTABLE_API_KEY'') \<and> \<not> env_truthy (e ''AIRTABLE_PAT'') \<or>
       \<not> env_truthy (baseId c) \<and> \<not> env_truthy (e ''AIRTABLE_BASE_ID'') \<and>
       \<not> env_truthy (e ''AIRTABLE_CRM_BASE_ID'') \<and>
       \<not> env_truthy (e ''AIRTABLE_CONTENT_HUB_BASE_ID'') \<and>
       \<not> env_truthy (e ''AIRTABLE_AUTOMATION_BASE_ID'') \<and>
       \<not> env_truthy (e ''AIRTABLE_SOCIAL_MEDIA_BASE_ID'') \<and>
       \<not> env_truthy (e ''AIRTABLE_NEWSLETTER_BASE_ID'')"
  then have "\<not> env_truthy (or_else (e ''AIRTABLE_API_KEY'') (e ''AIRTABLE_PAT'')) \<or>
    \<not> env_truthy (persona_base e (baseId c))"
    using persona_base_absent [of e "baseId c"] by (auto simp: or_else_def)
  then show "skipped_without_calls (airtableFetchPersona e (baseId c) rest_key)"
    by (rule fetchPersona_skipped)
next
  assume "\<not> env_truthy (e ''MINDSDB_URL'')"
  then show "skipped_without_calls (mindsdbQuery e nw sql)"
    by (auto simp: mindsdbQuery_def env_truthy_def skipped_without_calls_def split: option.splits)
next
  assume n: "\<not> env_truthy (e ''N8N_WEBHOOK_BASE'')"
  then show "skipped_without_calls (n8nTrigger e nw scenario payload)"
    by (auto simp: n8nTrigger_def env_truthy_def skipped_without_calls_def split: option.splits)
  from n show "skipped_without_calls (n8nTrigger_plain e nw scenario payload)"
    by (auto simp: n8nTrigger_plain_def env_truthy_def skipped_without_calls_def
        split: option.splits)
next
  assume k: "\<not> env_truthy (e ''BROWSERBASE_API_KEY'')"
  then show "webSearch e nw query =
          (Inr (SearchResults query [] ''Web search requires BROWSERBASE_API_KEY to be configured''
                  None), [])"
    by (simp add: webSearch_def)
  from k show "webScrape e nw url = (Inl ''BROWSERBASE_API_KEY required for web scraping'', [])"
    by (simp add: webScrape_def)
next
  assume "\<not> env_truthy (e ''TAVILY_API_KEY'')"
  then show "webSearch_tavily e query rest_search =
          (Inr (SearchResults query []
                  ''Set TAVILY_API_KEY in .env to enable web search (Tavily REST API).'' None), [])"
    by (auto simp: webSearch_tavily_def env_truthy_def split: option.splits)
qed

text \<open>
  Claim C2 as stated fails for the web tools: with no key in the environment the search
  returns an object without \<open>ok\<close> or \<open>skipped\<close>, and the scrape throws.
\<close>

theorem web_tools_not_skipped:
  "\<not> env_truthy (env_none ''BROWSERBASE_API_KEY'')
   \<and> \<not> skipped_without_calls (webSearch env_none net_scenario ''rn job market'')
   \<and> fst (webSearch env_none net_scenario ''rn job market'') =
       Inr (SearchResults ''rn job market'' []
              ''Web search requires BROWSERBASE_API_KEY to be configured'' None)
   \<and> res_ok (SearchResults ''rn job market'' []
              ''Web search requires BROWSERBASE_API_KEY to be configured'' None) = None
   \<and> \<not> skipped_without_calls (webScrape env_none net_scenario ''https://example.org'')
   \<and> fst (webScrape env_none net_scenario ''https://example.org'') =
       Inl ''BROWSERBASE_API_KEY required for web scraping''"
  by (simp add: env_none_def env_truthy_def webSearch_def webScrape_def skipped_without_calls_def)

theorem guards_without_configuration_witness:
  "skipped_without_calls (airtableGetHydratedContentContext env_none net_scenario ctx_rec1)
   \<and> skipped_without_calls (airtableGetContentBundle reads_none env_none net_scenario ctx_rec1)
   \<and> skipped_without_calls (airtableQuery env_none (\<lambda>headers. (Inl [], [])))
   \<and> skipped_without_calls (airtableFetchPersona env_none None (\<lambda>key base. (Inl [], [])))
   \<and> skipped_without_calls (airtableFetchPersona_legacy env_none None (\<lambda>headers base. (Inl [], [])))
   \<and> skipped_without_calls (mindsdbQuery env_none net_scenario ''SELECT 1'')
   \<and> skipped_without_calls (n8nTrigger env_none net_scenario ''repurposer'' None)
   \<and> skipped_without_calls (n8nTrigger_plain env_none net_scenario ''repurposer'' None)
   \<and> snd (webSearch env_none net_scenario ''rn job market'') = []
   \<and> snd (webScrape env_none net_scenario ''https://example.org'') = []
   \<and> snd (webSearch_tavily env_none ''rn job market'' (\<lambda>key. (Inl [], []))) = []"
proof -
  have n: "\<not> env_truthy (env_none k)" for k
    by (simp add: env_none_def env_truthy_def)
  have b: "\<not> env_truthy (baseId ctx_rec1)"
    by (simp add: ctx_rec1_def env_truthy_def)
  note t = guards_without_configuration [of env_none ctx_rec1 net_scenario reads_none
      "\<lambda>headers base. (Inl [], [])" "\<lambda>headers. (Inl [], [])" "\<lambda>key base. (Inl [], [])"
      "''SELECT 1''" "''repurposer''" None "''rn job market''" "''https://example.org''"
      "\<lambda>key. (Inl [], [])"]
  from t n b show ?thesis by (simp add: ctx_rec1_def)
qed

section \<open>The legacy bundle: prebuilt or assembled\<close>

lemma js_trim_non_blank: "js_trim s \<noteq> [] \<longleftrightarrow> non_blank s"
proof
  assume "js_trim s \<noteq> []"
  then have "dropWhile js_space s \<noteq> []"
    by (auto simp: js_trim_def dest: set_dropWhileD)
  then show "non_blank s"
    by (auto simp: non_blank_def list_ex_iff dropWhile_eq_Nil_conv dest: set_dropWhileD)
next
  assume "non_blank s"
  then have ne: "dropWhile js_space s \<noteq> []"
    by (auto simp: non_blank_def list_ex_iff dropWhile_eq_Nil_conv)
  then have "\<not> js_space (hd (dropWhile js_space s))"
    by (rule hd_dropWhile)
  with ne have "\<exists>x\<in>set (rev (dropWhile js_space s)). \<not> js_space x"
    by (metis hd_in_set set_rev)
  then have "dropWhile js_space (rev (dropWhile js_space s)) \<noteq> []"
    by (simp add: dropWhile_eq_Nil_conv)
  then show "js_trim s \<noteq> []"
    by (simp add: js_trim_def)
qed

lemma prebuilt_bundle_iff:
  "prebuilt_bundle v = Some s \<longleftrightarrow> v = Some (JStr s) \<and> non_blank s"
  by (auto simp: prebuilt_bundle_def js_trim_non_blank non_blank_def
      split: option.splits json.splits)

lemma fields_for_present:
  "js_get rec ''fields'' = Some f \<Longrightarrow> f \<noteq> JNull \<Longrightarrow> fields_for rec k = Inr f"
  by (cases rec; cases f) (auto simp: fields_for_def)





lemma push_scalar_line:
  assumes "case js_get f k of None \<Rightarrow> True | Some v \<Rightarrow> \<not> js_truthy v \<or> \<not> js_throws v"
  shows "push_scalar f k tag xmlParts = Inr (xmlParts @ scalar_line f k tag)"
  using assms
  by (auto simp: push_scalar_def scalar_line_def js_String_def split: option.splits)

lemma initiator_parts_lines:
  assumes "scalars_convertible f"
  shows "initiator_parts f i = Inr (initiator_lines f i)"
proof -
  from assms have
    g: "case js_get f ''Goal'' of None \<Rightarrow> True | Some v \<Rightarrow> \<not> js_truthy v \<or> \<not> js_throws v" and
    c: "case js_get f ''Content Type'' of None \<Rightarrow> True | Some v \<Rightarrow> \<not> js_truthy v \<or> \<not> js_throws v" and
    t: "case js_get f ''Output Type'' of None \<Rightarrow> True | Some v \<Rightarrow> \<not> js_truthy v \<or> \<not> js_throws v"
    by (simp_all add: scalars_convertible_def)
  show ?thesis
    by (simp add: initiator_parts_def initiator_lines_def Let_def
        push_scalar_line [OF g] push_scalar_line [OF c] push_scalar_line [OF t])
qed

lemma bundle_run:
  assumes "airtableHeadersOrNull e = Some headers"
    and "resolve_baseId e (baseId c) = Some b" and "b \<noteq> []"
    and "nw (initiator_request e headers b (initiatorId c)) = Responded res"
    and "ok res" and "body_json res = Inr rec"
  shows "airtableGetContentBundle num e nw c =
    catch_all (bundle_of_record num e (initiatorId c) rec,
               [initiator_request e headers b (initiatorId c)])"
  using assms
  by (simp add: airtableGetContentBundle_def airtable_guarded_def bundle_body_def Let_def)


text \<open>
  Claim C7, as amended. When the bundle field of the initiator record holds a string with
  at least one character that is not white space, the legacy tool returns that string as
  it is, as the document of a result of mode \<open>prebuilt\<close>, whatever the relation fields
  hold, and the request for the initiator is the only one it makes.
\<close>

theorem prebuilt_bundle_returned_directly:
  assumes "airtableHeadersOrNull e = Some headers"
    and "resolve_baseId e (baseId c) = Some b" and "b \<noteq> []"
    and "nw (initiator_request e headers b (initiatorId c)) = Responded res"
    and "ok res" and "body_json res = Inr rec"
    and "js_get rec ''fields'' = Some f" and "f \<noteq> JNull"
    and "js_get f (env_or e ''AIRTABLE_FIELD_XML_BUNDLE'' ''BUNDLE of the XML BUNDLES'') = Some (JStr s)"
    and "non_blank s"
  shows "airtableGetContentBundle num e nw c =
           (Inr (Prebuilt (initiatorId c) s), [initiator_request e headers b (initiatorId c)])"
proof -
  have "prebuilt_bundle (Some (JStr s)) = Some s"
    using assms(10) by (simp add: prebuilt_bundle_iff)
  then have "bundle_of_record num e (initiatorId c) rec = Inr (Prebuilt (initiatorId c) s)"
    using assms(7-9) by (simp add: bundle_of_record_def Let_def fields_for_present)
  moreover have "airtableGetContentBundle num e nw c =
      catch_all (bundle_of_record num e (initiatorId c) rec,
                 [initiator_request e headers b (initiatorId c)])"
    using assms(1-6) by (rule bundle_run)
  ultimately show ?thesis
    by (simp add: catch_all_def)
qed



lemma net_initiator_rec1:
  "net_initiator fs (initiator_request env_airtable headers_airtable ''appB'' (initiatorId ctx_rec1)) =
     Responded \<lparr>status = 200, body_text = [], body_json = Inr (record_json ''rec1'' fs)\<rparr>"
  by (simp add: initiator_request_rec1 net_initiator_def net_of_def get_request_def answer_def)

lemma ok_200: "ok \<lparr>status = 200, body_text = t, body_json = j\<rparr>"
  by (simp add: ok_def)

lemma fields_of_record_json: "js_get (record_json i fs) ''fields'' = Some (JObj fs)"
  by (simp add: record_json_def)

lemma bundle_field_default:
  "env_or env_airtable ''AIRTABLE_FIELD_XML_BUNDLE'' ''BUNDLE of the XML BUNDLES'' =
     ''BUNDLE of the XML BUNDLES''"
  by (simp add: env_or_def env_airtable_def)

theorem prebuilt_bundle_returned_directly_witness:
  "airtableGetContentBundle reads_none env_airtable
     (net_initiator [(''BUNDLE of the XML BUNDLES'', JStr '' <bundle>curated</bundle>''),
                     (''Personas'', JArr [JStr ''p1'', JStr ''p2''])]) ctx_rec1 =
     (Inr (Prebuilt ''rec1'' '' <bundle>curated</bundle>''), [get_request url_rec1 headers_airtable])"
proof -
  let ?fs = "[(''BUNDLE of the XML BUNDLES'', JStr '' <bundle>curated</bundle>''),
              (''Personas'', JArr [JStr ''p1'', JStr ''p2''])]"
  have nb: "non_blank '' <bundle>curated</bundle>''"
    by (simp add: non_blank_def js_space_def)
  have "airtableGetContentBundle reads_none env_airtable (net_initiator ?fs) ctx_rec1 =
      (Inr (Prebuilt (initiatorId ctx_rec1) '' <bundle>curated</bundle>''),
       [initiator_request env_airtable headers_airtable ''appB'' (initiatorId ctx_rec1)])"
    using prebuilt_bundle_returned_directly
        [where e = env_airtable and c = ctx_rec1 and headers = headers_airtable and b = "''appB''"
           and nw = "net_initiator ?fs" and rec = "record_json ''rec1'' ?fs" and f = "JObj ?fs"
           and res = "\<lparr>status = 200, body_text = [], body_json = Inr (record_json ''rec1'' ?fs)\<rparr>"
           and s = "'' <bundle>curated</bundle>''" and num = reads_none]
    by (simp add: headers_env_airtable base_env_airtable net_initiator_rec1 ok_200
        fields_of_record_json bundle_field_default nb)
  then show ?thesis
    by (simp add: initiator_request_rec1) (simp add: ctx_rec1_def)
qed

text \<open>
  Claim C7 as stated fails: a bundle field holding three blanks, or the number 7, holds a
  value that is not empty, and the tool assembles the document from the relation fields.
\<close>

theorem blank_bundle_field_is_assembled:
  "js_truthy (JStr ''   '')
   \<and> run_mode (airtableGetContentBundle reads_none env_airtable
        (net_initiator [(''BUNDLE of the XML BUNDLES'', JStr ''   ''),
                        (''Personas'', JArr [JStr ''p1'', JStr ''p2''])]) ctx_rec1) = Some ''assembled''
   \<and> run_xml (airtableGetContentBundle reads_none env_airtable
        (net_initiator [(''BUNDLE of the XML BUNDLES'', JStr ''   ''),
                        (''Personas'', JArr [JStr ''p1'', JStr ''p2''])]) ctx_rec1) = Some xml_ids_only
   \<and> js_truthy (JNum ''7'')
   \<and> run_mode (airtableGetContentBundle reads_none env_airtable
        (net_initiator [(''BUNDLE of the XML BUNDLES'', JNum ''7''),
                        (''Personas'', JArr [JStr ''p1'', JStr ''p2''])]) ctx_rec1) = Some ''assembled''"
  by code_simp


lemma base_env_airtable_None: "resolve_baseId env_airtable None = Some ''appB''"
  using base_env_airtable by (simp add: ctx_rec1_def)

lemma initiator_request_rec1_plain:
  "initiator_request env_airtable headers_airtable ''appB'' ''rec1'' =
     get_request url_rec1 headers_airtable"
  using initiator_request_rec1 by (simp add: ctx_rec1_def)

lemma net_initiator_rec1_plain:
  "net_initiator fs (get_request url_rec1 headers_airtable) =
     Responded \<lparr>status = 200, body_text = [], body_json = Inr (record_json ''rec1'' fs)\<rparr>"
  by (simp add: net_initiator_def net_of_def get_request_def answer_def)

lemmas rec1_world = headers_env_airtable base_env_airtable_None initiator_request_rec1_plain
  net_initiator_rec1_plain ok_200 fields_of_record_json





section \<open>The hydrated context\<close>

lemma js_String_good: "\<not> js_throws v \<Longrightarrow> js_String v = Inr (js_text v)"
  by (simp add: js_String_def)

lemma js_String_bad: "js_throws v \<Longrightarrow> js_String v = Inl ''Cannot convert object to primitive value''"
  by (simp add: js_String_def)

lemma fetch_loop_step:
  assumes "\<not> js_throws i"
  shows "fetch_loop nw h b t (i # ids) results log =
     (case nw (child_request h b t i) of
        Rejected msg \<Rightarrow> (Inl msg, log @ [child_request h b t i])
      | Responded r \<Rightarrow>
          if ok r then
            (case body_json r of
               Inl msg \<Rightarrow> (Inl msg, log @ [child_request h b t i])
             | Inr rec \<Rightarrow> fetch_loop nw h b t ids (results @ [rec]) (log @ [child_request h b t i]))
          else fetch_loop nw h b t ids results (log @ [child_request h b t i]))"
  unfolding child_request_def using assms by (simp add: js_String_good Let_def)

lemma fetch_loop_stop:
  assumes "js_throws i"
  shows "fetch_loop nw h b t (i # ids) results log =
     (Inl ''Cannot convert object to primitive value'', log)"
  using assms by (simp add: js_String_bad)

declare fetch_loop.simps(2) [simp del]

lemma fetch_loop_log_mono: "set log \<subseteq> set (snd (fetch_loop nw h b t ids results log))"
proof (induction ids arbitrary: results log)
  case Nil
  show ?case by simp
next
  case (Cons i ids)
  let ?req = "child_request h b t i"
  show ?case
  proof (cases "js_throws i")
    case True
    then show ?thesis by (simp only: fetch_loop_stop) simp
  next
    case conv: False
    show ?thesis
    proof (cases "nw ?req")
      case (Rejected msg)
      then show ?thesis by (auto simp: fetch_loop_step [OF conv])
    next
      case (Responded r)
      show ?thesis
      proof (cases "ok r")
        case True
        show ?thesis
        proof (cases "body_json r")
          case (Inl msg)
          with Responded True show ?thesis by (auto simp: fetch_loop_step [OF conv])
        next
          case (Inr rec)
          with Responded True Cons.IH [of "log @ [?req]" "results @ [rec]"] show ?thesis
            by (auto simp: fetch_loop_step [OF conv])
        qed
      next
        case False
        with Responded Cons.IH [of "log @ [?req]" results] show ?thesis
          by (auto simp: fetch_loop_step [OF conv])
      qed
    qed
  qed
qed

lemma fetch_loop_agree:
  "\<forall>req\<in>set (snd (fetch_loop nw1 h b t ids results log)). nw2 req = nw1 req \<Longrightarrow>
     fetch_loop nw2 h b t ids results log = fetch_loop nw1 h b t ids results log"
proof (induction ids arbitrary: results log)
  case Nil
  show ?case by simp
next
  case (Cons i ids)
  let ?req = "child_request h b t i"
  show ?case
  proof (cases "js_throws i")
    case True
    then show ?thesis by (simp only: fetch_loop_stop)
  next
    case conv: False
    have "?req \<in> set (snd (fetch_loop nw1 h b t (i # ids) results log))"
      using fetch_loop_log_mono [of "log @ [?req]" nw1 h b t ids]
      by (auto simp: fetch_loop_step [OF conv] split: fetched.splits sum.splits)
    with Cons.prems have same: "nw2 ?req = nw1 ?req" by blast
    show ?thesis
    proof (cases "nw1 ?req")
      case (Rejected msg)
      with same show ?thesis by (simp add: fetch_loop_step [OF conv])
    next
      case (Responded r)
      show ?thesis
      proof (cases "ok r")
        case True
        show ?thesis
        proof (cases "body_json r")
          case (Inl msg)
          with Responded True same show ?thesis by (simp add: fetch_loop_step [OF conv])
        next
          case (Inr rec)
          with Responded True same Cons.prems Cons.IH [of "results @ [rec]" "log @ [?req]"]
          show ?thesis by (simp add: fetch_loop_step [OF conv])
        qed
      next
        case False
        with Responded same Cons.prems Cons.IH [of results "log @ [?req]"]
        show ?thesis by (simp add: fetch_loop_step [OF conv])
      qed
    qed
  qed
qed

lemma fetch_loop_success:
  "fetch_loop nw h b t ids results log = (Inr rs, log') \<longleftrightarrow>
     (\<forall>i\<in>set ids. \<not> js_throws i \<and> \<not> child_throws nw (child_request h b t i)) \<and>
     rs = results @ List.map_filter (\<lambda>i. child_record nw (child_request h b t i)) ids \<and>
     log' = log @ map (child_request h b t) ids"
proof (induction ids arbitrary: results log)
  case Nil
  show ?case by (auto simp: List.map_filter_simps)
next
  case (Cons i ids)
  let ?req = "child_request h b t i"
  show ?case
  proof (cases "js_throws i")
    case True
    then show ?thesis by (simp add: fetch_loop_stop)
  next
    case conv: False
    show ?thesis
    proof (cases "nw ?req")
      case (Rejected msg)
      then show ?thesis by (simp add: fetch_loop_step [OF conv] child_throws_def)
    next
      case (Responded r)
      show ?thesis
      proof (cases "ok r")
        case True
        show ?thesis
        proof (cases "body_json r")
          case (Inl msg)
          with Responded True show ?thesis
            by (simp add: fetch_loop_step [OF conv] child_throws_def)
        next
          case (Inr rec)
          with Responded True Cons.IH [of "results @ [rec]" "log @ [?req]"] show ?thesis
            by (simp add: fetch_loop_step [OF conv] conv child_throws_def child_record_def
                List.map_filter_simps)
        qed
      next
        case False
        with Responded Cons.IH [of results "log @ [?req]"] show ?thesis
          by (simp add: fetch_loop_step [OF conv] conv child_throws_def child_record_def
              List.map_filter_simps)
      qed
    qed
  qed
qed

lemma collected_texts_map_filter:
  "filter js_truthy (map (xml_of x) (List.map_filter (\<lambda>i. child_record nw (mk i)) ids)) =
     collected_texts nw mk x ids"
  by (induction ids)
    (auto simp: collected_texts_def resolves_def List.map_filter_simps split: option.splits)

lemma collected_texts_empty:
  "collected_texts nw mk x ids = [] \<longleftrightarrow> (\<forall>j\<in>set ids. \<not> resolves nw mk x j)"
  by (simp add: collected_texts_def filter_empty_conv)

lemma length_collected_texts:
  "length (collected_texts nw mk x ids) = length (filter (resolves nw mk x) ids)"
  by (simp add: collected_texts_def)


lemma fetchByIds_good:
  assumes "js_iterate ids = Inr idl"
    and "\<forall>i\<in>set idl. \<not> js_throws i \<and> \<not> child_throws nw (child_request h b t i)"
  shows "fetchByIds nw h b t ids x log =
           (Inr (collected_texts nw (child_request h b t) x idl), log @ map (child_request h b t) idl)"
proof -
  have "fetch_loop nw h b t idl [] log =
      (Inr ([] @ List.map_filter (\<lambda>i. child_record nw (child_request h b t i)) idl),
       log @ map (child_request h b t) idl)"
    using assms(2) by (simp add: fetch_loop_success)
  then show ?thesis
    using assms(1) by (simp add: fetchByIds_def collected_texts_map_filter)
qed

lemma fetchByIds_bad:
  assumes "\<not> (case js_iterate ids of Inl msg \<Rightarrow> False
             | Inr idl \<Rightarrow> \<forall>i\<in>set idl. \<not> js_throws i \<and> \<not> child_throws nw (child_request h b t i))"
  shows "\<exists>msg log'. fetchByIds nw h b t ids x log = (Inl msg, log')"
proof (cases "js_iterate ids")
  case (Inl msg)
  then show ?thesis by (simp add: fetchByIds_def)
next
  case (Inr idl)
  obtain out log' where run: "fetch_loop nw h b t idl [] log = (out, log')"
    by (cases "fetch_loop nw h b t idl [] log")
  show ?thesis
  proof (cases out)
    case (Inl msg)
    with Inr run show ?thesis by (simp add: fetchByIds_def)
  next
    case rs: (Inr rs)
    with run have "\<forall>i\<in>set idl. \<not> js_throws i \<and> \<not> child_throws nw (child_request h b t i)"
      by (simp add: fetch_loop_success)
    with assms Inr show ?thesis by simp
  qed
qed

lemma fetchByIds_log_mono: "set log \<subseteq> set (snd (fetchByIds nw h b t ids x log))"
proof (cases "js_iterate ids")
  case (Inl msg)
  then show ?thesis by (simp add: fetchByIds_def)
next
  case (Inr idl)
  then have "snd (fetchByIds nw h b t ids x log) = snd (fetch_loop nw h b t idl [] log)"
    by (simp add: fetchByIds_def split: prod.splits sum.splits)
  then show ?thesis
    using fetch_loop_log_mono [of log nw h b t idl "[]"] by simp
qed

lemma fetchByIds_agree:
  assumes "\<forall>req\<in>set (snd (fetchByIds nw1 h b t ids x log)). nw2 req = nw1 req"
  shows "fetchByIds nw2 h b t ids x log = fetchByIds nw1 h b t ids x log"
proof (cases "js_iterate ids")
  case (Inl msg)
  then show ?thesis by (simp add: fetchByIds_def)
next
  case (Inr idl)
  have "snd (fetchByIds nw1 h b t ids x log) = snd (fetch_loop nw1 h b t idl [] log)"
    using Inr by (simp add: fetchByIds_def split: prod.splits sum.splits)
  with assms have "fetch_loop nw2 h b t idl [] log = fetch_loop nw1 h b t idl [] log"
    by (intro fetch_loop_agree) simp
  with Inr show ?thesis by (simp add: fetchByIds_def)
qed

lemma stage_agree:
  assumes "fetchByIds nw1 h b t ids x log = (out, log')" and "\<forall>req\<in>set log'. nw2 req = nw1 req"
  shows "fetchByIds nw2 h b t ids x log = (out, log')"
  using fetchByIds_agree [of nw1 h b t ids x log nw2] assms by simp

lemma stage_mono:
  assumes "fetchByIds nw h b t ids x log = (out, log')"
  shows "set log \<subseteq> set log'"
  using fetchByIds_log_mono [of log nw h b t ids x] assms by simp

lemma hydrate_linked_agree:
  assumes "\<forall>req\<in>set (snd (hydrate_linked e nw1 h b i init log)). nw2 req = nw1 req"
  shows "hydrate_linked e nw2 h b i init log = hydrate_linked e nw1 h b i init log"
proof (cases "fields_for init ''Personas''")
  case (Inl msg)
  then show ?thesis by (simp add: hydrate_linked_def)
next
  case (Inr f)
  let ?p = "js_or (js_get f ''Personas'') (JArr [])"
  let ?d = "js_or (js_get f ''Content Domains'') (JArr [])"
  let ?en = "js_or (js_get f ''Entity'') (JArr [])"
  let ?r = "js_or (js_get f ''References'') (JArr [])"
  obtain o1 l1 where s1:
    "fetchByIds nw1 h b (env_or e ''AIRTABLE_TABLE_PERSONAS'' ''Personas'') ?p ''XML Bundle'' log = (o1, l1)"
    by (cases "fetchByIds nw1 h b (env_or e ''AIRTABLE_TABLE_PERSONAS'' ''Personas'') ?p ''XML Bundle'' log")
  obtain o2 l2 where s2:
    "fetchByIds nw1 h b (env_or e ''AIRTABLE_TABLE_DOMAINS'' ''Content Domains'') ?d ''XML Bundle'' l1 = (o2, l2)"
    by (cases "fetchByIds nw1 h b (env_or e ''AIRTABLE_TABLE_DOMAINS'' ''Content Domains'') ?d ''XML Bundle'' l1")
  obtain o3 l3 where s3:
    "fetchByIds nw1 h b (env_or e ''AIRTABLE_TABLE_ENTITIES'' ''Entity'') ?en ''XML'' l2 = (o3, l3)"
    by (cases "fetchByIds nw1 h b (env_or e ''AIRTABLE_TABLE_ENTITIES'' ''Entity'') ?en ''XML'' l2")
  obtain o4 l4 where s4:
    "fetchByIds nw1 h b (env_or e ''AIRTABLE_TABLE_REFERENCES'' ''References'') ?r ''XML'' l3 = (o4, l4)"
    by (cases "fetchByIds nw1 h b (env_or e ''AIRTABLE_TABLE_REFERENCES'' ''References'') ?r ''XML'' l3")
  note m2 = stage_mono [OF s2] and m3 = stage_mono [OF s3] and m4 = stage_mono [OF s4]
  show ?thesis
  proof (cases o1)
    case a1: (Inl msg)
    with Inr s1 have "snd (hydrate_linked e nw1 h b i init log) = l1"
      by (simp add: hydrate_linked_def)
    with assms have "\<forall>req\<in>set l1. nw2 req = nw1 req" by simp
    from stage_agree [OF s1 this] Inr s1 a1 show ?thesis
      by (simp add: hydrate_linked_def)
  next
    case a1: (Inr personaXml)
    show ?thesis
    proof (cases o2)
      case a2: (Inl msg)
      with Inr s1 s2 a1 have "snd (hydrate_linked e nw1 h b i init log) = l2"
        by (simp add: hydrate_linked_def)
      with assms have g2: "\<forall>req\<in>set l2. nw2 req = nw1 req" by simp
      with m2 have g1: "\<forall>req\<in>set l1. nw2 req = nw1 req" by blast
      from stage_agree [OF s1 g1] stage_agree [OF s2 g2] Inr s1 s2 a1 a2 show ?thesis
        by (simp add: hydrate_linked_def)
    next
      case a2: (Inr domainXml)
      show ?thesis
      proof (cases o3)
        case a3: (Inl msg)
        with Inr s1 s2 s3 a1 a2 have "snd (hydrate_linked e nw1 h b i init log) = l3"
          by (simp add: hydrate_linked_def)
        with assms have g3: "\<forall>req\<in>set l3. nw2 req = nw1 req" by simp
        with m3 have g2: "\<forall>req\<in>set l2. nw2 req = nw1 req" by blast
        with m2 have g1: "\<forall>req\<in>set l1. nw2 req = nw1 req" by blast
        from stage_agree [OF s1 g1] stage_agree [OF s2 g2] stage_agree [OF s3 g3]
          Inr s1 s2 s3 a1 a2 a3 show ?thesis
          by (simp add: hydrate_linked_def)
      next
        case a3: (Inr entityXml)
        have "snd (hydrate_linked e nw1 h b i init log) = l4"
          using Inr s1 s2 s3 s4 a1 a2 a3
          by (cases o4) (simp_all add: hydrate_linked_def split: sum.splits)
        with assms have g4: "\<forall>req\<in>set l4. nw2 req = nw1 req" by simp
        with m4 have g3: "\<forall>req\<in>set l3. nw2 req = nw1 req" by blast
        with m3 have g2: "\<forall>req\<in>set l2. nw2 req = nw1 req" by blast
        with m2 have g1: "\<forall>req\<in>set l1. nw2 req = nw1 req" by blast
        from stage_agree [OF s1 g1] stage_agree [OF s2 g2] stage_agree [OF s3 g3]
          stage_agree [OF s4 g4] Inr s1 s2 s3 s4 a1 a2 a3 show ?thesis
          by (simp add: hydrate_linked_def)
      qed
    qed
  qed
qed

lemma hydrate_linked_log_mono: "set log \<subseteq> set (snd (hydrate_linked e nw h b i init log))"
proof (cases "fields_for init ''Personas''")
  case (Inl msg)
  then show ?thesis by (simp add: hydrate_linked_def)
next
  case (Inr f)
  let ?p = "js_or (js_get f ''Personas'') (JArr [])"
  let ?d = "js_or (js_get f ''Content Domains'') (JArr [])"
  let ?en = "js_or (js_get f ''Entity'') (JArr [])"
  let ?r = "js_or (js_get f ''References'') (JArr [])"
  obtain o1 l1 where s1:
    "fetchByIds nw h b (env_or e ''AIRTABLE_TABLE_PERSONAS'' ''Personas'') ?p ''XML Bundle'' log = (o1, l1)"
    by (cases "fetchByIds nw h b (env_or e ''AIRTABLE_TABLE_PERSONAS'' ''Personas'') ?p ''XML Bundle'' log")
  obtain o2 l2 where s2:
    "fetchByIds nw h b (env_or e ''AIRTABLE_TABLE_DOMAINS'' ''Content Domains'') ?d ''XML Bundle'' l1 = (o2, l2)"
    by (cases "fetchByIds nw h b (env_or e ''AIRTABLE_TABLE_DOMAINS'' ''Content Domains'') ?d ''XML Bundle'' l1")
  obtain o3 l3 where s3:
    "fetchByIds nw h b (env_or e ''AIRTABLE_TABLE_ENTITIES'' ''Entity'') ?en ''XML'' l2 = (o3, l3)"
    by (cases "fetchByIds nw h b (env_or e ''AIRTABLE_TABLE_ENTITIES'' ''Entity'') ?en ''XML'' l2")
  obtain o4 l4 where s4:
    "fetchByIds nw h b (env_or e ''AIRTABLE_TABLE_REFERENCES'' ''References'') ?r ''XML'' l3 = (o4, l4)"
    by (cases "fetchByIds nw h b (env_or e ''AIRTABLE_TABLE_REFERENCES'' ''References'') ?r ''XML'' l3")
  note m1 = stage_mono [OF s1] and m2 = stage_mono [OF s2] and m3 = stage_mono [OF s3]
    and m4 = stage_mono [OF s4]
  have "snd (hydrate_linked e nw h b i init log) \<in> {l1, l2, l3, l4}"
    using Inr s1 s2 s3 s4
    by (cases o1; cases o2; cases o3; cases o4)
      (simp_all add: hydrate_linked_def split: sum.splits)
  with m1 m2 m3 m4 show ?thesis by auto
qed

lemma catch_all_snd: "snd (catch_all x) = snd x"
  by (cases x) (auto simp: catch_all_def split: sum.splits)

lemma hydrate_body_agree:
  assumes "\<forall>req\<in>set (snd (hydrate_body e nw1 i h b)). nw2 req = nw1 req"
  shows "hydrate_body e nw2 i h b = hydrate_body e nw1 i h b"
proof -
  let ?req = "initiator_request e h b i"
  have "?req \<in> set (snd (hydrate_body e nw1 i h b))"
    using hydrate_linked_log_mono [of "[?req]" e nw1 h b i]
    by (auto simp: hydrate_body_def Let_def split: fetched.splits sum.splits)
  with assms have same: "nw2 ?req = nw1 ?req" by blast
  show ?thesis
  proof (cases "nw1 ?req")
    case (Rejected msg)
    with same show ?thesis by (simp add: hydrate_body_def Let_def)
  next
    case (Responded initRes)
    show ?thesis
    proof (cases "ok initRes \<and> (\<exists>init. body_json initRes = Inr init)")
      case False
      with Responded same show ?thesis
        by (cases "body_json initRes") (auto simp: hydrate_body_def Let_def)
    next
      case True
      then obtain init where init: "ok initRes" "body_json initRes = Inr init" by blast
      with Responded have "snd (hydrate_body e nw1 i h b) = snd (hydrate_linked e nw1 h b i init [?req])"
        by (simp add: hydrate_body_def Let_def)
      with assms have "hydrate_linked e nw2 h b i init [?req] = hydrate_linked e nw1 h b i init [?req]"
        by (intro hydrate_linked_agree) simp
      with Responded same init show ?thesis
        by (simp add: hydrate_body_def Let_def)
    qed
  qed
qed

text \<open>
  Claim C6. The result of the hydrated-context tool depends on the world only through the
  answers to the requests it makes: a second invocation, in a world that answers those
  requests as the first world did, returns the same result, the same document byte for
  byte, after the same requests. Nothing else (no clock, no counter, no cache) enters the
  document.
\<close>

theorem hydrate_deterministic_in_responses:
  assumes "\<forall>req\<in>set (snd (airtableGetHydratedContentContext e nw1 c)). nw2 req = nw1 req"
  shows "airtableGetHydratedContentContext e nw2 c = airtableGetHydratedContentContext e nw1 c"
proof (cases "airtableHeadersOrNull e")
  case None
  then show ?thesis
    by (simp add: airtableGetHydratedContentContext_def airtable_guarded_def)
next
  case (Some headers)
  show ?thesis
  proof (cases "resolve_baseId e (baseId c)")
    case None
    with Some show ?thesis
      by (simp add: airtableGetHydratedContentContext_def airtable_guarded_def)
  next
    case b: (Some b)
    show ?thesis
    proof (cases "b = []")
      case True
      with Some b show ?thesis
        by (simp add: airtableGetHydratedContentContext_def airtable_guarded_def)
    next
      case False
      with Some b have "snd (airtableGetHydratedContentContext e nw1 c) =
          snd (hydrate_body e nw1 (initiatorId c) headers b)"
        by (simp add: airtableGetHydratedContentContext_def airtable_guarded_def catch_all_snd)
      with assms have "hydrate_body e nw2 (initiatorId c) headers b =
          hydrate_body e nw1 (initiatorId c) headers b"
        by (intro hydrate_body_agree) simp
      with Some b False show ?thesis
        by (simp add: airtableGetHydratedContentContext_def airtable_guarded_def)
    qed
  qed
qed



lemma push_scalar_bad:
  assumes "\<not> (case js_get f k of None \<Rightarrow> True | Some v \<Rightarrow> \<not> js_truthy v \<or> \<not> js_throws v)"
  shows "push_scalar f k tag xmlParts = Inl ''Cannot convert object to primitive value''"
  using assms by (auto simp: push_scalar_def js_String_def split: option.splits)

lemma initiator_parts_bad:
  assumes "\<not> scalars_convertible f"
  shows "initiator_parts f i = Inl ''Cannot convert object to primitive value''"
proof -
  let ?ok = "\<lambda>k. case js_get f k of None \<Rightarrow> True | Some v \<Rightarrow> \<not> js_truthy v \<or> \<not> js_throws v"
  let ?p0 = "[''<bundle>'', ''  <initiator id='' @ [dq] @ i @ [dq] @ ''>'']"
  show ?thesis
  proof (cases "?ok ''Goal''")
    case False
    then show ?thesis
      by (simp add: initiator_parts_def Let_def push_scalar_bad)
  next
    case g: True
    note s1 = push_scalar_line [OF g]
    show ?thesis
    proof (cases "?ok ''Content Type''")
      case False
      then show ?thesis
        by (simp add: initiator_parts_def Let_def s1 push_scalar_bad)
    next
      case c: True
      note s2 = push_scalar_line [OF c]
      from assms g c have "\<not> ?ok ''Output Type''"
        by (simp add: scalars_convertible_def)
      then show ?thesis
        by (simp add: initiator_parts_def Let_def s1 s2 push_scalar_bad)
    qed
  qed
qed

lemma initiator_parts_Inr:
  "initiator_parts f i = Inr parts \<longleftrightarrow> scalars_convertible f \<and> parts = initiator_lines f i"
proof (cases "scalars_convertible f")
  case True
  then show ?thesis by (auto simp: initiator_parts_lines)
next
  case False
  then show ?thesis by (simp add: initiator_parts_bad)
qed

lemma push_texts_eq:
  "push_texts xs parts =
     (if \<exists>x\<in>set xs. js_throws x then Inl ''Cannot convert object to primitive value''
      else Inr (parts @ map (\<lambda>xml. ''    '' @ js_text xml) xs))"
  by (induction xs arbitrary: parts) (simp_all add: js_String_def)

lemma push_category_eq:
  "push_category tag xs parts =
     (if \<exists>x\<in>set xs. js_throws x then Inl ''Cannot convert object to primitive value''
      else Inr (parts @ category_container tag xs))"
  by (cases "xs = []") (simp_all add: push_category_def category_container_def push_texts_eq)

lemma push_category_Inr:
  "push_category tag xs parts = Inr parts' \<longleftrightarrow>
     (\<forall>x\<in>set xs. \<not> js_throws x) \<and> parts' = parts @ category_container tag xs"
  by (auto simp: push_category_eq)

lemma scalar_line_nonempty: "\<forall>p\<in>set (scalar_line f k tag). p \<noteq> []"
  by (auto simp: scalar_line_def split: option.splits)

lemma initiator_lines_nonempty: "\<forall>p\<in>set (initiator_lines f i). p \<noteq> []"
  using scalar_line_nonempty [of f] by (auto simp: initiator_lines_def)

lemma category_container_nonempty: "\<forall>p\<in>set (category_container tag xs). p \<noteq> []"
  by (auto simp: category_container_def)

lemma document_parts_kept:
  "filter (\<lambda>part. part \<noteq> [])
     (initiator_lines f i @ category_container ''personas'' ps @
      category_container ''domains'' ds @ category_container ''entities'' es @
      category_container ''references'' rs @ [''</bundle>'']) =
   initiator_lines f i @ category_container ''personas'' ps @
      category_container ''domains'' ds @ category_container ''entities'' es @
      category_container ''references'' rs @ [''</bundle>'']"
proof -
  let ?parts = "initiator_lines f i @ category_container ''personas'' ps @
      category_container ''domains'' ds @ category_container ''entities'' es @
      category_container ''references'' rs @ [''</bundle>'']"
  have "\<forall>p\<in>set ?parts. p \<noteq> []"
    using initiator_lines_nonempty [of f i] category_container_nonempty by auto
  then show ?thesis
    by (simp only: filter_id_conv)
qed

lemma hydrated_xml_Inr:
  "hydrated_xml f i ps ds es rs = Inr xml \<longleftrightarrow>
     scalars_convertible f \<and> (\<forall>x\<in>set (ps @ ds @ es @ rs). \<not> js_throws x) \<and>
     xml = composite_document f i ps ds es rs"
proof -
  let ?p0 = "initiator_lines f i"
  let ?p1 = "?p0 @ category_container ''personas'' ps"
  let ?p2 = "?p1 @ category_container ''domains'' ds"
  let ?p3 = "?p2 @ category_container ''entities'' es"
  let ?p4 = "?p3 @ category_container ''references'' rs"
  have kept: "filter (\<lambda>part. part \<noteq> []) (?p4 @ [''</bundle>'']) = ?p4 @ [''</bundle>'']"
    using document_parts_kept [of f i ps ds es rs] by simp
  have doc: "composite_document f i ps ds es rs = join_with newline (?p4 @ [''</bundle>''])"
    by (simp add: composite_document_def)
  show ?thesis
  proof (cases "initiator_parts f i")
    case (Inl msg)
    then have "\<not> scalars_convertible f"
      using initiator_parts_Inr [of f i "initiator_lines f i"] by auto
    with Inl show ?thesis by (simp add: hydrated_xml_def)
  next
    case s0: (Inr q0)
    then have c0: "scalars_convertible f" and q0: "q0 = ?p0"
      by (simp_all add: initiator_parts_Inr)
    show ?thesis
    proof (cases "push_category ''personas'' ps q0")
      case (Inl msg)
      then have "\<not> (\<forall>x\<in>set ps. \<not> js_throws x)"
        using push_category_Inr [of "''personas''" ps q0 "q0 @ category_container ''personas'' ps"]
        by auto
      with s0 Inl show ?thesis by (auto simp: hydrated_xml_def)
    next
      case s1: (Inr q1)
      then have c1: "\<forall>x\<in>set ps. \<not> js_throws x" and q1: "q1 = ?p1"
        by (simp_all add: push_category_Inr q0)
      show ?thesis
      proof (cases "push_category ''domains'' ds q1")
        case (Inl msg)
        then have "\<not> (\<forall>x\<in>set ds. \<not> js_throws x)"
          using push_category_Inr [of "''domains''" ds q1 "q1 @ category_container ''domains'' ds"]
          by auto
        with s0 s1 Inl show ?thesis by (auto simp: hydrated_xml_def)
      next
        case s2: (Inr q2)
        then have c2: "\<forall>x\<in>set ds. \<not> js_throws x" and q2: "q2 = ?p2"
          by (simp_all add: push_category_Inr q1)
        show ?thesis
        proof (cases "push_category ''entities'' es q2")
          case (Inl msg)
          then have "\<not> (\<forall>x\<in>set es. \<not> js_throws x)"
            using push_category_Inr [of "''entities''" es q2 "q2 @ category_container ''entities'' es"]
            by auto
          with s0 s1 s2 Inl show ?thesis by (auto simp: hydrated_xml_def)
        next
          case s3: (Inr q3)
          then have c3: "\<forall>x\<in>set es. \<not> js_throws x" and q3: "q3 = ?p3"
            by (simp_all add: push_category_Inr q2)
          show ?thesis
          proof (cases "push_category ''references'' rs q3")
            case (Inl msg)
            then have "\<not> (\<forall>x\<in>set rs. \<not> js_throws x)"
              using push_category_Inr
                [of "''references''" rs q3 "q3 @ category_container ''references'' rs"]
              by auto
            with s0 s1 s2 s3 Inl show ?thesis by (auto simp: hydrated_xml_def)
          next
            case s4: (Inr q4)
            then have c4: "\<forall>x\<in>set rs. \<not> js_throws x" and q4: "q4 = ?p4"
              by (simp_all add: push_category_Inr q3)
            have "hydrated_xml f i ps ds es rs =
                Inr (join_with newline (filter (\<lambda>part. part \<noteq> []) (q4 @ [''</bundle>''])))"
              using s0 s1 s2 s3 s4 by (simp add: hydrated_xml_def)
            then have "hydrated_xml f i ps ds es rs = Inr (composite_document f i ps ds es rs)"
              unfolding q4 kept doc .
            with c0 c1 c2 c3 c4 show ?thesis by auto
          qed
        qed
      qed
    qed
  qed
qed

lemma hydrated_xml_good:
  assumes "scalars_convertible f" and "\<forall>x\<in>set (ps @ ds @ es @ rs). \<not> js_throws x"
  shows "hydrated_xml f i ps ds es rs = Inr (composite_document f i ps ds es rs)"
  using assms hydrated_xml_Inr [of f i ps ds es rs "composite_document f i ps ds es rs"] by simp

lemma linked_ids_iterate:
  "js_iterate (js_or (js_get f k) (JArr [])) = Inr ids \<Longrightarrow> linked_ids f k = ids"
  by (simp add: linked_ids_def)

lemma texts_convertible_iff:
  "texts_convertible t \<longleftrightarrow>
     (\<forall>x\<in>set (personas t @ domains t @ entities t @ references t). \<not> js_throws x)"
  by (simp add: texts_convertible_def list_all_iff)

lemma hydrate_linked_good:
  assumes ff: "fields_for init ''Personas'' = Inr f"
    and it: "relations_iterable f"
    and ic: "ids_convertible f"
    and nt: "\<forall>req\<in>set (child_requests e h b f). \<not> child_throws nw req"
    and sc: "scalars_convertible f"
    and tc: "texts_convertible (category_texts e nw h b f)"
  shows "hydrate_linked e nw h b i init log =
     (Inr (Hydrated i
             (composite_document f i (personas (category_texts e nw h b f))
                (domains (category_texts e nw h b f)) (entities (category_texts e nw h b f))
                (references (category_texts e nw h b f)))
             \<lparr>personas = length (personas (category_texts e nw h b f)),
              domains = length (domains (category_texts e nw h b f)),
              entities = length (entities (category_texts e nw h b f)),
              references = length (references (category_texts e nw h b f))\<rparr>),
      log @ child_requests e h b f)"
proof -
  from it obtain ps ds es rs where
    p: "js_iterate (js_or (js_get f ''Personas'') (JArr [])) = Inr ps" and
    d: "js_iterate (js_or (js_get f ''Content Domains'') (JArr [])) = Inr ds" and
    en: "js_iterate (js_or (js_get f ''Entity'') (JArr [])) = Inr es" and
    r: "js_iterate (js_or (js_get f ''References'') (JArr [])) = Inr rs"
    by (auto simp: relations_iterable_def split: sum.splits)
  note l = linked_ids_iterate [OF p] linked_ids_iterate [OF d] linked_ids_iterate [OF en]
    linked_ids_iterate [OF r]
  from nt ic have
    "\<forall>j\<in>set ps. \<not> js_throws j \<and>
       \<not> child_throws nw (child_request h b (env_or e ''AIRTABLE_TABLE_PERSONAS'' ''Personas'') j)"
    "\<forall>j\<in>set ds. \<not> js_throws j \<and>
       \<not> child_throws nw (child_request h b (env_or e ''AIRTABLE_TABLE_DOMAINS'' ''Content Domains'') j)"
    "\<forall>j\<in>set es. \<not> js_throws j \<and>
       \<not> child_throws nw (child_request h b (env_or e ''AIRTABLE_TABLE_ENTITIES'' ''Entity'') j)"
    "\<forall>j\<in>set rs. \<not> js_throws j \<and>
       \<not> child_throws nw (child_request h b (env_or e ''AIRTABLE_TABLE_REFERENCES'' ''References'') j)"
    by (auto simp: child_requests_def ids_convertible_def list_all_iff l persona_request_def
        domain_request_def entity_request_def reference_request_def)
  note g = fetchByIds_good [OF p this(1)] fetchByIds_good [OF d this(2)]
    fetchByIds_good [OF en this(3)] fetchByIds_good [OF r this(4)]
  let ?t = "category_texts e nw h b f"
  have doc: "hydrated_xml f i (personas ?t) (domains ?t) (entities ?t) (references ?t) =
      Inr (composite_document f i (personas ?t) (domains ?t) (entities ?t) (references ?t))"
    using sc tc by (intro hydrated_xml_good) (simp_all only: texts_convertible_iff)
  have t: "personas ?t = collected_texts nw
        (child_request h b (env_or e ''AIRTABLE_TABLE_PERSONAS'' ''Personas'')) ''XML Bundle'' ps"
      "domains ?t = collected_texts nw
        (child_request h b (env_or e ''AIRTABLE_TABLE_DOMAINS'' ''Content Domains'')) ''XML Bundle'' ds"
      "entities ?t = collected_texts nw
        (child_request h b (env_or e ''AIRTABLE_TABLE_ENTITIES'' ''Entity'')) ''XML'' es"
      "references ?t = collected_texts nw
        (child_request h b (env_or e ''AIRTABLE_TABLE_REFERENCES'' ''References'')) ''XML'' rs"
    by (simp_all add: category_texts_def l persona_request_def domain_request_def
        entity_request_def reference_request_def)
  have reqs: "child_requests e h b f =
      map (child_request h b (env_or e ''AIRTABLE_TABLE_PERSONAS'' ''Personas'')) ps @
      map (child_request h b (env_or e ''AIRTABLE_TABLE_DOMAINS'' ''Content Domains'')) ds @
      map (child_request h b (env_or e ''AIRTABLE_TABLE_ENTITIES'' ''Entity'')) es @
      map (child_request h b (env_or e ''AIRTABLE_TABLE_REFERENCES'' ''References'')) rs"
    by (simp add: child_requests_def l persona_request_def domain_request_def
        entity_request_def reference_request_def)
  show ?thesis
    unfolding reqs using doc [unfolded t]
    by (simp add: hydrate_linked_def ff g t)
qed

lemma hydrate_linked_Inr:
  assumes run: "hydrate_linked e nw h b i init log = (Inr res, log')"
    and ff: "fields_for init ''Personas'' = Inr f"
  shows "relations_iterable f \<and> ids_convertible f \<and>
    (\<forall>req\<in>set (child_requests e h b f). \<not> child_throws nw req) \<and>
    scalars_convertible f \<and> texts_convertible (category_texts e nw h b f)"
proof -
  let ?p = "js_or (js_get f ''Personas'') (JArr [])"
  let ?d = "js_or (js_get f ''Content Domains'') (JArr [])"
  let ?en = "js_or (js_get f ''Entity'') (JArr [])"
  let ?r = "js_or (js_get f ''References'') (JArr [])"
  let ?tp = "env_or e ''AIRTABLE_TABLE_PERSONAS'' ''Personas''"
  let ?td = "env_or e ''AIRTABLE_TABLE_DOMAINS'' ''Content Domains''"
  let ?te = "env_or e ''AIRTABLE_TABLE_ENTITIES'' ''Entity''"
  let ?tr = "env_or e ''AIRTABLE_TABLE_REFERENCES'' ''References''"
  have g1: "case js_iterate ?p of Inl msg \<Rightarrow> False
      | Inr idl \<Rightarrow> \<forall>j\<in>set idl. \<not> js_throws j \<and> \<not> child_throws nw (child_request h b ?tp j)"
  proof (rule ccontr)
    assume "\<not> ?thesis"
    from fetchByIds_bad [OF this, of "''XML Bundle''" log] run ff show False
      by (auto simp: hydrate_linked_def)
  qed
  then obtain ps where p: "js_iterate ?p = Inr ps"
    and tp: "\<forall>j\<in>set ps. \<not> js_throws j \<and> \<not> child_throws nw (child_request h b ?tp j)"
    by (auto split: sum.splits)
  note s1 = fetchByIds_good [OF p tp]
  have g2: "case js_iterate ?d of Inl msg \<Rightarrow> False
      | Inr idl \<Rightarrow> \<forall>j\<in>set idl. \<not> js_throws j \<and> \<not> child_throws nw (child_request h b ?td j)"
  proof (rule ccontr)
    assume "\<not> ?thesis"
    from fetchByIds_bad [OF this, of "''XML Bundle''" "log @ map (child_request h b ?tp) ps"] run ff
    show False
      by (auto simp: hydrate_linked_def s1)
  qed
  then obtain ds where d: "js_iterate ?d = Inr ds"
    and td: "\<forall>j\<in>set ds. \<not> js_throws j \<and> \<not> child_throws nw (child_request h b ?td j)"
    by (auto split: sum.splits)
  note s2 = fetchByIds_good [OF d td]
  have g3: "case js_iterate ?en of Inl msg \<Rightarrow> False
      | Inr idl \<Rightarrow> \<forall>j\<in>set idl. \<not> js_throws j \<and> \<not> child_throws nw (child_request h b ?te j)"
  proof (rule ccontr)
    assume "\<not> ?thesis"
    from fetchByIds_bad [OF this, of "''XML''"
        "(log @ map (child_request h b ?tp) ps) @ map (child_request h b ?td) ds"] run ff
    show False
      by (auto simp: hydrate_linked_def s1 s2)
  qed
  then obtain es where en: "js_iterate ?en = Inr es"
    and te: "\<forall>j\<in>set es. \<not> js_throws j \<and> \<not> child_throws nw (child_request h b ?te j)"
    by (auto split: sum.splits)
  note s3 = fetchByIds_good [OF en te]
  have g4: "case js_iterate ?r of Inl msg \<Rightarrow> False
      | Inr idl \<Rightarrow> \<forall>j\<in>set idl. \<not> js_throws j \<and> \<not> child_throws nw (child_request h b ?tr j)"
  proof (rule ccontr)
    assume "\<not> ?thesis"
    from fetchByIds_bad [OF this, of "''XML''"
        "((log @ map (child_request h b ?tp) ps) @ map (child_request h b ?td) ds) @
         map (child_request h b ?te) es"] run ff
    show False
      by (auto simp: hydrate_linked_def s1 s2 s3)
  qed
  then obtain rs where r: "js_iterate ?r = Inr rs"
    and tr: "\<forall>j\<in>set rs. \<not> js_throws j \<and> \<not> child_throws nw (child_request h b ?tr j)"
    by (auto split: sum.splits)
  note s4 = fetchByIds_good [OF r tr]
  note l = linked_ids_iterate [OF p] linked_ids_iterate [OF d] linked_ids_iterate [OF en]
    linked_ids_iterate [OF r]
  let ?t = "category_texts e nw h b f"
  have t: "personas ?t = collected_texts nw (child_request h b ?tp) ''XML Bundle'' ps"
      "domains ?t = collected_texts nw (child_request h b ?td) ''XML Bundle'' ds"
      "entities ?t = collected_texts nw (child_request h b ?te) ''XML'' es"
      "references ?t = collected_texts nw (child_request h b ?tr) ''XML'' rs"
    by (simp_all add: category_texts_def l persona_request_def domain_request_def
        entity_request_def reference_request_def)
  have "\<exists>xml. hydrated_xml f i (personas ?t) (domains ?t) (entities ?t) (references ?t) = Inr xml"
    using run ff unfolding t
    by (auto simp: hydrate_linked_def s1 s2 s3 s4 split: sum.splits)
  then have sc: "scalars_convertible f" and tc: "texts_convertible ?t"
    by (auto simp: hydrated_xml_Inr texts_convertible_iff)
  have "relations_iterable f"
    by (simp add: relations_iterable_def p d en r)
  moreover have "ids_convertible f"
    using tp td te tr by (simp add: ids_convertible_def list_all_iff l) blast
  moreover have "\<forall>req\<in>set (child_requests e h b f). \<not> child_throws nw req"
    using tp td te tr
    by (auto simp: child_requests_def l persona_request_def domain_request_def entity_request_def
        reference_request_def)
  ultimately show ?thesis using sc tc by simp
qed


lemma hydrate_run:
  assumes "airtableHeadersOrNull e = Some headers"
    and "resolve_baseId e (baseId c) = Some b" and "b \<noteq> []"
    and "nw (initiator_request e headers b (initiatorId c)) = Responded res"
    and "ok res" and "body_json res = Inr init"
  shows "airtableGetHydratedContentContext e nw c =
     catch_all (hydrate_linked e nw headers b (initiatorId c) init
                  [initiator_request e headers b (initiatorId c)])"
  using assms
  by (simp add: airtableGetHydratedContentContext_def airtable_guarded_def hydrate_body_def Let_def)

lemma hydrate_success_form:
  assumes "airtableHeadersOrNull e = Some headers"
    and "resolve_baseId e (baseId c) = Some b" and "b \<noteq> []"
    and "nw (initiator_request e headers b (initiatorId c)) = Responded res"
    and "ok res" and "body_json res = Inr init"
    and "js_get init ''fields'' = Some f"
    and "fst (airtableGetHydratedContentContext e nw c) = Inr (Hydrated i xml counts)"
  shows "i = initiatorId c \<and>
     xml = composite_document f (initiatorId c)
                (personas (category_texts e nw headers b f))
                (domains (category_texts e nw headers b f))
                (entities (category_texts e nw headers b f))
                (references (category_texts e nw headers b f)) \<and>
     counts = \<lparr>personas = length (personas (category_texts e nw headers b f)),
              domains = length (domains (category_texts e nw headers b f)),
              entities = length (entities (category_texts e nw headers b f)),
              references = length (references (category_texts e nw headers b f))\<rparr> \<and>
     scalars_convertible f \<and> texts_convertible (category_texts e nw headers b f)"
proof -
  let ?req = "initiator_request e headers b (initiatorId c)"
  have run: "airtableGetHydratedContentContext e nw c =
     catch_all (hydrate_linked e nw headers b (initiatorId c) init [?req])"
    using assms(1-6) by (rule hydrate_run)
  obtain out log' where hl: "hydrate_linked e nw headers b (initiatorId c) init [?req] = (out, log')"
    by (cases "hydrate_linked e nw headers b (initiatorId c) init [?req]")
  from assms(8) run hl have out: "out = Inr (Hydrated i xml counts)"
    by (cases out) (simp_all add: catch_all_def)
  have ff: "fields_for init ''Personas'' = Inr f"
  proof (cases "fields_for init ''Personas''")
    case (Inl msg)
    with hl out show ?thesis by (simp add: hydrate_linked_def)
  next
    case (Inr f')
    with assms(7) show ?thesis
      by (cases init) (auto simp: fields_for_def split: json.splits option.splits if_splits)
  qed
  from hl out have "hydrate_linked e nw headers b (initiatorId c) init [?req] =
      (Inr (Hydrated i xml counts), log')" by simp
  from hydrate_linked_Inr [OF this ff]
  have h: "relations_iterable f" "ids_convertible f"
    "\<forall>req\<in>set (child_requests e headers b f). \<not> child_throws nw req"
    "scalars_convertible f" "texts_convertible (category_texts e nw headers b f)"
    by simp_all
  from hydrate_linked_good [OF ff h, of "initiatorId c" "[?req]"] hl out h(4,5)
  show ?thesis by simp
qed

text \<open>
  The path the loop of \<open>fetchByIds\<close> does provide for a child that fails: when the
  initiator record was fetched, it can be written out, and every child request is answered
  (with a body that parses, when the status is 2xx), the tool returns the hydrated
  document, however many of the child requests the store answers with a status that is
  not 2xx. The texts of a category are those of the ids that resolve, so a child whose
  fetch was answered with another status is left out and nothing else changes. Every
  linked record is requested, in the order of the categories.
\<close>

lemma non_2xx_children_are_left_out:
  assumes "airtableHeadersOrNull e = Some headers"
    and "resolve_baseId e (baseId c) = Some b" and "b \<noteq> []"
    and "nw (initiator_request e headers b (initiatorId c)) = Responded res"
    and "ok res" and "body_json res = Inr init"
    and "js_get init ''fields'' = Some f" and "f \<noteq> JNull"
    and "relations_iterable f" and "ids_convertible f"
    and "\<forall>req\<in>set (child_requests e headers b f). \<not> child_throws nw req"
    and "scalars_convertible f" and "texts_convertible (category_texts e nw headers b f)"
  shows "airtableGetHydratedContentContext e nw c =
     (Inr (Hydrated (initiatorId c)
             (composite_document f (initiatorId c)
                (personas (category_texts e nw headers b f))
                (domains (category_texts e nw headers b f))
                (entities (category_texts e nw headers b f))
                (references (category_texts e nw headers b f)))
             \<lparr>personas = length (personas (category_texts e nw headers b f)),
              domains = length (domains (category_texts e nw headers b f)),
              entities = length (entities (category_texts e nw headers b f)),
              references = length (references (category_texts e nw headers b f))\<rparr>),
      initiator_request e headers b (initiatorId c) # child_requests e headers b f)"
proof -
  have ff: "fields_for init ''Personas'' = Inr f"
    using assms(7,8) by (rule fields_for_present)
  have "airtableGetHydratedContentContext e nw c =
     catch_all (hydrate_linked e nw headers b (initiatorId c) init
                  [initiator_request e headers b (initiatorId c)])"
    using assms(1-6) by (rule hydrate_run)
  then show ?thesis
    by (simp add: hydrate_linked_good [OF ff assms(9-13)] catch_all_def)
qed

text \<open>
  A child fetch that throws ends the whole invocation: under the same conditions on the
  initiator, when the request for one linked record gets no response, or a 2xx answer
  whose body does not parse, the tool returns \<open>{ok: false, error}\<close> and no document.
\<close>

lemma throwing_child_fails_hydration:
  assumes "airtableHeadersOrNull e = Some headers"
    and "resolve_baseId e (baseId c) = Some b" and "b \<noteq> []"
    and "nw (initiator_request e headers b (initiatorId c)) = Responded res"
    and "ok res" and "body_json res = Inr init"
    and "js_get init ''fields'' = Some f" and "f \<noteq> JNull"
    and "req \<in> set (child_requests e headers b f)" and "child_throws nw req"
  shows "\<exists>msg. fst (airtableGetHydratedContentContext e nw c) = Inr (Failed msg)"
proof -
  let ?req = "initiator_request e headers b (initiatorId c)"
  have ff: "fields_for init ''Personas'' = Inr f"
    using assms(7,8) by (rule fields_for_present)
  have run: "airtableGetHydratedContentContext e nw c =
     catch_all (hydrate_linked e nw headers b (initiatorId c) init [?req])"
    using assms(1-6) by (rule hydrate_run)
  obtain out log' where hl: "hydrate_linked e nw headers b (initiatorId c) init [?req] = (out, log')"
    by (cases "hydrate_linked e nw headers b (initiatorId c) init [?req]")
  show ?thesis
  proof (cases out)
    case (Inl msg)
    with run hl show ?thesis by (simp add: catch_all_def)
  next
    case (Inr r)
    with hl have "hydrate_linked e nw headers b (initiatorId c) init [?req] = (Inr r, log')"
      by simp
    from hydrate_linked_Inr [OF this ff] assms(9,10) show ?thesis by blast
  qed
qed

text \<open>
  Claim C1 fails on the code. The initiator \<open>rec1\<close> is fetched and links the personas
  \<open>p1\<close> and \<open>p2\<close> and the entity \<open>e1\<close>. When the request for \<open>p2\<close> gets no response,
  the rejection leaves the loop of \<open>fetchByIds\<close>, which has no handler of its own, and
  reaches the \<open>catch\<close> of the tool: the result is \<open>{ok: false, error: 'fetch failed'}\<close>,
  and no document. In the same store with \<open>p2\<close> answered 404, the loop passes over \<open>p2\<close>
  and the tool returns the document without it, as the claim says it should in both.
\<close>

theorem unreachable_child_fails_hydration:
  "net_p2_unreachable (get_request url_rec1 headers_airtable) =
     answer (record_json ''rec1'' fields_rec1)
   \<and> net_p2_unreachable (get_request url_p2 headers_airtable) = Rejected ''fetch failed''
   \<and> airtableGetHydratedContentContext env_airtable net_p2_unreachable ctx_rec1 =
       (Inr (Failed ''fetch failed''),
        [get_request url_rec1 headers_airtable, get_request url_p1 headers_airtable,
         get_request url_p2 headers_airtable])
   \<and> res_ok (Failed ''fetch failed'') = Some False
   \<and> net_p2_deleted (get_request url_p2 headers_airtable) = Responded not_found
   \<and> airtableGetHydratedContentContext env_airtable net_p2_deleted ctx_rec1 =
       (Inr (Hydrated ''rec1'' xml_scenario
               \<lparr>personas = 1, domains = 0, entities = 1, references = 0\<rparr>),
        [get_request url_rec1 headers_airtable, get_request url_p1 headers_airtable,
         get_request url_p2 headers_airtable, get_request url_e1 headers_airtable])"
  by code_simp

text \<open>
  Claim C3. In a success result, the count reported for a category is the number of its
  linked ids that resolve to a knowledge text that is not empty (counted with repetitions,
  as the relation lists them), not the number of linked ids.
\<close>

theorem linked_counts_are_resolved_counts:
  assumes "airtableHeadersOrNull e = Some headers"
    and "resolve_baseId e (baseId c) = Some b" and "b \<noteq> []"
    and "nw (initiator_request e headers b (initiatorId c)) = Responded res"
    and "ok res" and "body_json res = Inr init"
    and "js_get init ''fields'' = Some f"
    and "fst (airtableGetHydratedContentContext e nw c) = Inr (Hydrated i xml counts)"
  shows "personas counts =
           length (filter (resolves nw (persona_request e headers b) ''XML Bundle'')
                     (linked_ids f ''Personas''))
       \<and> domains counts =
           length (filter (resolves nw (domain_request e headers b) ''XML Bundle'')
                     (linked_ids f ''Content Domains''))
       \<and> entities counts =
           length (filter (resolves nw (entity_request e headers b) ''XML'')
                     (linked_ids f ''Entity''))
       \<and> references counts =
           length (filter (resolves nw (reference_request e headers b) ''XML'')
                     (linked_ids f ''References''))"
  using hydrate_success_form [OF assms]
  by (simp add: category_texts_def length_collected_texts)

text \<open>
  Claim C5. The document of a success result is the initiator element followed by the
  containers of the personas, the domains, the entities and the references, in that order,
  and the bundle's closing tag. The container of a category with no collected text is no
  line at all; that of a category with texts is its opening tag, one line for each text and
  its closing tag. No text is collected for a category exactly when none of its linked ids
  resolves: the relation is empty, or every child fetch failed or gave an empty text. The
  lines of the initiator element are those the tool pushed, and the text on each line of a
  container is the collected text as the tool converts it.
\<close>

theorem containers_in_fixed_order_never_empty:
  assumes "airtableHeadersOrNull e = Some headers"
    and "resolve_baseId e (baseId c) = Some b" and "b \<noteq> []"
    and "nw (initiator_request e headers b (initiatorId c)) = Responded res"
    and "ok res" and "body_json res = Inr init"
    and "js_get init ''fields'' = Some f"
    and "fst (airtableGetHydratedContentContext e nw c) = Inr (Hydrated i xml counts)"
  shows "xml = join_with newline
           (initiator_lines f i @
            category_container ''personas'' (personas (category_texts e nw headers b f)) @
            category_container ''domains'' (domains (category_texts e nw headers b f)) @
            category_container ''entities'' (entities (category_texts e nw headers b f)) @
            category_container ''references'' (references (category_texts e nw headers b f)) @
            [''</bundle>''])
       \<and> initiator_parts f i = Inr (initiator_lines f i)
       \<and> (\<forall>x\<in>set (personas (category_texts e nw headers b f) @
                   domains (category_texts e nw headers b f) @
                   entities (category_texts e nw headers b f) @
                   references (category_texts e nw headers b f)).
            js_String x = Inr (js_text x))
       \<and> category_container tag [] = []
       \<and> category_container tag (t # ts) =
           [''  <'' @ tag @ ''>''] @ map (\<lambda>xml. ''    '' @ js_text xml) (t # ts) @
           [''  </'' @ tag @ ''>'']
       \<and> (personas (category_texts e nw headers b f) = []) =
           (\<forall>j\<in>set (linked_ids f ''Personas'').
              \<not> resolves nw (persona_request e headers b) ''XML Bundle'' j)
       \<and> (domains (category_texts e nw headers b f) = []) =
           (\<forall>j\<in>set (linked_ids f ''Content Domains'').
              \<not> resolves nw (domain_request e headers b) ''XML Bundle'' j)
       \<and> (entities (category_texts e nw headers b f) = []) =
           (\<forall>j\<in>set (linked_ids f ''Entity'').
              \<not> resolves nw (entity_request e headers b) ''XML'' j)
       \<and> (references (category_texts e nw headers b f) = []) =
           (\<forall>j\<in>set (linked_ids f ''References'').
              \<not> resolves nw (reference_request e headers b) ''XML'' j)"
proof -
  let ?t = "category_texts e nw headers b f"
  note form = hydrate_success_form [OF assms]
  from form have i: "i = initiatorId c" and sc: "scalars_convertible f"
    and tc: "texts_convertible ?t" by simp_all
  from form have "xml = composite_document f i (personas ?t) (domains ?t) (entities ?t)
      (references ?t)"
    by simp
  then have doc: "xml = join_with newline
           (initiator_lines f i @
            category_container ''personas'' (personas ?t) @
            category_container ''domains'' (domains ?t) @
            category_container ''entities'' (entities ?t) @
            category_container ''references'' (references ?t) @ [''</bundle>''])"
    by (simp only: composite_document_def)
  have parts: "initiator_parts f i = Inr (initiator_lines f i)"
    using sc by (rule initiator_parts_lines)
  have conv: "\<forall>x\<in>set (personas ?t @ domains ?t @ entities ?t @ references ?t).
      js_String x = Inr (js_text x)"
    using tc by (simp only: texts_convertible_iff) (simp add: js_String_def)
  have c0: "category_container tag [] = []"
    by (simp add: category_container_def)
  have c1: "category_container tag (t # ts) =
           [''  <'' @ tag @ ''>''] @ map (\<lambda>xml. ''    '' @ js_text xml) (t # ts) @
           [''  </'' @ tag @ ''>'']"
    by (simp add: category_container_def)
  have e1: "(personas ?t = []) =
           (\<forall>j\<in>set (linked_ids f ''Personas'').
              \<not> resolves nw (persona_request e headers b) ''XML Bundle'' j)"
    by (simp add: category_texts_def collected_texts_empty)
  have e2: "(domains ?t = []) =
           (\<forall>j\<in>set (linked_ids f ''Content Domains'').
              \<not> resolves nw (domain_request e headers b) ''XML Bundle'' j)"
    by (simp add: category_texts_def collected_texts_empty)
  have e3: "(entities ?t = []) =
           (\<forall>j\<in>set (linked_ids f ''Entity'').
              \<not> resolves nw (entity_request e headers b) ''XML'' j)"
    by (simp add: category_texts_def collected_texts_empty)
  have e4: "(references ?t = []) =
           (\<forall>j\<in>set (linked_ids f ''References'').
              \<not> resolves nw (reference_request e headers b) ''XML'' j)"
    by (simp add: category_texts_def collected_texts_empty)
  from doc parts conv c0 c1 e1 e2 e3 e4 show ?thesis
    by (intro conjI)
qed


lemma run_scenario:
  "airtableGetHydratedContentContext env_airtable net_scenario ctx_rec1 =
     (Inr (Hydrated ''rec1'' xml_scenario
             \<lparr>personas = 1, domains = 0, entities = 1, references = 0\<rparr>),
      [get_request url_rec1 headers_airtable, get_request url_p1 headers_airtable,
       get_request url_p2 headers_airtable, get_request url_e1 headers_airtable])"
  by code_simp

lemma net_scenario_rec1:
  "net_scenario (get_request url_rec1 headers_airtable) =
     Responded \<lparr>status = 200, body_text = [], body_json = Inr (record_json ''rec1'' fields_rec1)\<rparr>"
  by code_simp

lemma texts_scenario:
  "category_texts env_airtable net_scenario headers_airtable ''appB'' (JObj fields_rec1) =
     \<lparr>personas = [JStr ''<persona>A</persona>''], domains = [],
      entities = [JStr ''<entity>B</entity>''], references = []\<rparr>"
  by code_simp

theorem linked_counts_are_resolved_counts_witness:
  "length (linked_ids (JObj fields_rec1) ''Personas'') = 2
   \<and> length (filter (resolves net_scenario (persona_request env_airtable headers_airtable ''appB'')
                ''XML Bundle'') (linked_ids (JObj fields_rec1) ''Personas'')) = 1
   \<and> length (filter (resolves net_scenario (entity_request env_airtable headers_airtable ''appB'')
                ''XML'') (linked_ids (JObj fields_rec1) ''Entity'')) = 1
   \<and> fst (airtableGetHydratedContentContext env_airtable net_scenario ctx_rec1) =
       Inr (Hydrated ''rec1'' xml_scenario
              \<lparr>personas = 1, domains = 0, entities = 1, references = 0\<rparr>)"
proof -
  have n: "length (linked_ids (JObj fields_rec1) ''Personas'') = 2"
    by code_simp
  have run: "fst (airtableGetHydratedContentContext env_airtable net_scenario ctx_rec1) =
       Inr (Hydrated ''rec1'' xml_scenario
              \<lparr>personas = 1, domains = 0, entities = 1, references = 0\<rparr>)"
    by (simp add: run_scenario)
  from linked_counts_are_resolved_counts
      [where e = env_airtable and c = ctx_rec1 and headers = headers_airtable and b = "''appB''"
         and nw = net_scenario and init = "record_json ''rec1'' fields_rec1"
         and f = "JObj fields_rec1"
         and res = "\<lparr>status = 200, body_text = [],
                       body_json = Inr (record_json ''rec1'' fields_rec1)\<rparr>"
         and i = "''rec1''" and xml = xml_scenario
         and counts = "\<lparr>personas = 1, domains = 0, entities = 1, references = 0\<rparr>"]
  have "1 = length (filter (resolves net_scenario (persona_request env_airtable headers_airtable ''appB'')
                ''XML Bundle'') (linked_ids (JObj fields_rec1) ''Personas''))
      \<and> 1 = length (filter (resolves net_scenario (entity_request env_airtable headers_airtable ''appB'')
                ''XML'') (linked_ids (JObj fields_rec1) ''Entity''))"
    by (simp add: rec1_world ctx_rec1_def net_scenario_rec1 run [unfolded ctx_rec1_def])
  with n run show ?thesis by simp
qed

theorem containers_in_fixed_order_never_empty_witness:
  "xml_scenario = join_with newline
     (initiator_lines (JObj fields_rec1) ''rec1'' @
      category_container ''personas'' [JStr ''<persona>A</persona>''] @
      category_container ''domains'' [] @
      category_container ''entities'' [JStr ''<entity>B</entity>''] @
      category_container ''references'' [] @ [''</bundle>''])
   \<and> initiator_parts (JObj fields_rec1) ''rec1'' = Inr (initiator_lines (JObj fields_rec1) ''rec1'')
   \<and> category_container ''domains'' [] = []
   \<and> category_container ''personas'' [JStr ''<persona>A</persona>''] =
       [''  <personas>'', ''    <persona>A</persona>'', ''  </personas>'']"
proof -
  have run: "fst (airtableGetHydratedContentContext env_airtable net_scenario ctx_rec1) =
       Inr (Hydrated ''rec1'' xml_scenario
              \<lparr>personas = 1, domains = 0, entities = 1, references = 0\<rparr>)"
    by (simp add: run_scenario)
  note inst = containers_in_fixed_order_never_empty
      [where e = env_airtable and c = ctx_rec1 and headers = headers_airtable and b = "''appB''"
         and nw = net_scenario and init = "record_json ''rec1'' fields_rec1"
         and f = "JObj fields_rec1"
         and res = "\<lparr>status = 200, body_text = [],
                       body_json = Inr (record_json ''rec1'' fields_rec1)\<rparr>"
         and i = "''rec1''" and xml = xml_scenario
         and counts = "\<lparr>personas = 1, domains = 0, entities = 1, references = 0\<rparr>"]
  have "xml_scenario = join_with newline
     (initiator_lines (JObj fields_rec1) ''rec1'' @
      category_container ''personas''
        (personas (category_texts env_airtable net_scenario headers_airtable ''appB'' (JObj fields_rec1))) @
      category_container ''domains''
        (domains (category_texts env_airtable net_scenario headers_airtable ''appB'' (JObj fields_rec1))) @
      category_container ''entities''
        (entities (category_texts env_airtable net_scenario headers_airtable ''appB'' (JObj fields_rec1))) @
      category_container ''references''
        (references (category_texts env_airtable net_scenario headers_airtable ''appB'' (JObj fields_rec1))) @
      [''</bundle>''])"
    by (rule inst [THEN conjunct1])
      (simp_all add: rec1_world ctx_rec1_def net_scenario_rec1 run [unfolded ctx_rec1_def])
  then have doc: "xml_scenario = join_with newline
     (initiator_lines (JObj fields_rec1) ''rec1'' @
      category_container ''personas'' [JStr ''<persona>A</persona>''] @
      category_container ''domains'' [] @
      category_container ''entities'' [JStr ''<entity>B</entity>''] @
      category_container ''references'' [] @ [''</bundle>''])"
    by (simp only: texts_scenario per_category.simps)
  have parts: "initiator_parts (JObj fields_rec1) ''rec1'' =
      Inr (initiator_lines (JObj fields_rec1) ''rec1'')"
    by (rule inst [THEN conjunct2, THEN conjunct1])
      (simp_all add: rec1_world ctx_rec1_def net_scenario_rec1 run [unfolded ctx_rec1_def])
  have "category_container ''domains'' [] = []"
    by (simp add: category_container_def)
  moreover have "category_container ''personas'' [JStr ''<persona>A</persona>''] =
       [''  <personas>'', ''    <persona>A</persona>'', ''  </personas>'']"
    by (simp add: category_container_def)
  ultimately show ?thesis using doc parts by (intro conjI)
qed

theorem hydrate_deterministic_in_responses_witness:
  "airtableGetHydratedContentContext env_airtable net_scenario_more ctx_rec1 =
     airtableGetHydratedContentContext env_airtable net_scenario ctx_rec1
   \<and> run_xml (airtableGetHydratedContentContext env_airtable net_scenario_more ctx_rec1) =
       Some xml_scenario
   \<and> net_scenario_more (get_request ''https://api.airtable.com/v0/appB/Personas/p9'' headers_airtable)
       \<noteq> net_scenario (get_request ''https://api.airtable.com/v0/appB/Personas/p9'' headers_airtable)"
proof -
  have same: "net_scenario_more (get_request url_rec1 headers_airtable) =
        net_scenario (get_request url_rec1 headers_airtable)"
      "net_scenario_more (get_request url_p1 headers_airtable) =
        net_scenario (get_request url_p1 headers_airtable)"
      "net_scenario_more (get_request url_p2 headers_airtable) =
        net_scenario (get_request url_p2 headers_airtable)"
      "net_scenario_more (get_request url_e1 headers_airtable) =
        net_scenario (get_request url_e1 headers_airtable)"
    by code_simp+
  have differ: "net_scenario_more (get_request ''https://api.airtable.com/v0/appB/Personas/p9'' headers_airtable)
       \<noteq> net_scenario (get_request ''https://api.airtable.com/v0/appB/Personas/p9'' headers_airtable)"
    by code_simp
  have eq: "airtableGetHydratedContentContext env_airtable net_scenario_more ctx_rec1 =
     airtableGetHydratedContentContext env_airtable net_scenario ctx_rec1"
    using hydrate_deterministic_in_responses [of env_airtable net_scenario ctx_rec1 net_scenario_more]
    by (simp add: run_scenario same)
  with differ show ?thesis
    by (simp add: run_scenario run_xml_def)
qed

end
